theory Spec2Isabelle
  imports Main
begin

section \<open>Numbers\<close>

text \<open>
  A JavaScript number is a double. The numbers the program stores in span coordinates and
  uses as grid deltas are integers or one of the three non-finite values. Sums and
  differences of integers are exact, as they are for doubles of magnitude up to \<open>2^53\<close>.
  \<open>jsAdd\<close>, \<open>jsSub\<close>, \<open>jsMin\<close>, \<open>jsMax\<close>, \<open>jsEq\<close>, \<open>jsLess\<close>, \<open>jsGe\<close> are
  \<open>+\<close>, \<open>-\<close>, \<open>Math.min\<close>, \<open>Math.max\<close>, \<open>===\<close>, \<open><\<close>, \<open>>=\<close> on such numbers, and
  \<open>jsLe\<close> is \<open><=\<close>: \<open>NaN\<close> propagates through arithmetic and makes every comparison
  false.
\<close>

datatype jsnum = Num int | PosInf | NegInf | NaN

fun jsNeg :: "jsnum \<Rightarrow> jsnum" where
  "jsNeg (Num a) = Num (- a)"
| "jsNeg PosInf = NegInf"
| "jsNeg NegInf = PosInf"
| "jsNeg NaN = NaN"

fun jsAdd :: "jsnum \<Rightarrow> jsnum \<Rightarrow> jsnum" where
  "jsAdd (Num a) (Num b) = Num (a + b)"
| "jsAdd NaN y = NaN"
| "jsAdd x NaN = NaN"
| "jsAdd PosInf NegInf = NaN"
| "jsAdd NegInf PosInf = NaN"
| "jsAdd PosInf y = PosInf"
| "jsAdd x PosInf = PosInf"
| "jsAdd NegInf y = NegInf"
| "jsAdd x NegInf = NegInf"

definition jsSub :: "jsnum \<Rightarrow> jsnum \<Rightarrow> jsnum" where
  "jsSub x y = jsAdd x (jsNeg y)"

fun jsLess :: "jsnum \<Rightarrow> jsnum \<Rightarrow> bool" where
  "jsLess (Num a) (Num b) = (a < b)"
| "jsLess NaN y = False"
| "jsLess x NaN = False"
| "jsLess PosInf y = False"
| "jsLess x PosInf = True"
| "jsLess NegInf NegInf = False"
| "jsLess NegInf y = True"
| "jsLess x NegInf = False"

fun jsEq :: "jsnum \<Rightarrow> jsnum \<Rightarrow> bool" where
  "jsEq NaN y = False"
| "jsEq x NaN = False"
| "jsEq x y = (x = y)"

definition jsGe :: "jsnum \<Rightarrow> jsnum \<Rightarrow> bool" where
  "jsGe x y \<longleftrightarrow> jsLess y x \<or> jsEq x y"

definition jsLe :: "jsnum \<Rightarrow> jsnum \<Rightarrow> bool" where
  "jsLe x y \<longleftrightarrow> jsLess x y \<or> jsEq x y"

fun jsMin :: "jsnum \<Rightarrow> jsnum \<Rightarrow> jsnum" where
  "jsMin NaN y = NaN"
| "jsMin x NaN = NaN"
| "jsMin x y = (if jsLess y x then y else x)"

fun jsMax :: "jsnum \<Rightarrow> jsnum \<Rightarrow> jsnum" where
  "jsMax NaN y = NaN"
| "jsMax x NaN = NaN"
| "jsMax x y = (if jsLess x y then y else x)"

subsection \<open>Double arithmetic on fractions\<close>

text \<open>
  The grid deltas of a drag are computed from quotients that are not integers. A finite
  double is represented by a fraction \<open>Frac a b\<close> with \<open>b > 0\<close>, and every operation rounds
  its exact result to the nearest double, ties to the even significand, as IEEE 754
  prescribes: \<open>fl a b\<close> is the double nearest to \<open>a / b\<close>. Zero carries no sign; the
  program divides by zero only when a sum cancels, which yields \<open>+0\<close>.
\<close>

datatype jsfloat = Frac int int | FPosInf | FNegInf | FNaN

text \<open>The number of binary digits of a natural number.\<close>

function bitlen :: "int \<Rightarrow> nat" where
  "bitlen n = (if n \<le> 0 then 0 else Suc (bitlen (n div 2)))"
  by pat_completeness auto
termination
  by (relation "measure nat") auto

declare bitlen.simps [simp del]

definition fl :: "int \<Rightarrow> int \<Rightarrow> jsfloat" where
  "fl a b =
     (if a = 0 then Frac 0 1
      else (let n = \<bar>a\<bar>;
                l = int (bitlen n) - int (bitlen b);
                ge = (if 0 \<le> l then b * 2 ^ nat l \<le> n else b \<le> n * 2 ^ nat (- l));
                e = max (if ge then l - 52 else l - 53) (- 1074);
                num = (if 0 \<le> e then n else n * 2 ^ nat (- e));
                den = (if 0 \<le> e then b * 2 ^ nat e else b);
                m0 = num div den;
                r = num mod den;
                m = (if den < 2 * r \<or> (2 * r = den \<and> odd m0) then m0 + 1 else m0)
            in if 971 < e \<or> (e = 971 \<and> 9007199254740992 \<le> m)
               then (if 0 < a then FPosInf else FNegInf)
               else if 0 \<le> e then Frac (sgn a * m * 2 ^ nat e) 1
               else Frac (sgn a * m) (2 ^ nat (- e))))"

definition ofInt :: "int \<Rightarrow> jsfloat" where
  "ofInt i = fl i 1"

fun fadd :: "jsfloat \<Rightarrow> jsfloat \<Rightarrow> jsfloat" where
  "fadd (Frac a b) (Frac c d) = fl (a * d + c * b) (b * d)"
| "fadd FNaN y = FNaN"
| "fadd x FNaN = FNaN"
| "fadd FPosInf FNegInf = FNaN"
| "fadd FNegInf FPosInf = FNaN"
| "fadd FPosInf y = FPosInf"
| "fadd x FPosInf = FPosInf"
| "fadd FNegInf y = FNegInf"
| "fadd x FNegInf = FNegInf"

text \<open>The sign of a number that is not \<open>NaN\<close>: 1, 0 or -1.\<close>

fun fsign :: "jsfloat \<Rightarrow> int" where
  "fsign (Frac a b) = sgn a"
| "fsign FPosInf = 1"
| "fsign FNegInf = - 1"
| "fsign FNaN = 0"

definition signedInf :: "int \<Rightarrow> jsfloat" where
  "signedInf s = (if 0 < s then FPosInf else FNegInf)"

fun fmul :: "jsfloat \<Rightarrow> jsfloat \<Rightarrow> jsfloat" where
  "fmul (Frac a b) (Frac c d) = fl (a * c) (b * d)"
| "fmul FNaN y = FNaN"
| "fmul x FNaN = FNaN"
| "fmul x y = (if fsign x * fsign y = 0 then FNaN else signedInf (fsign x * fsign y))"

fun fdiv :: "jsfloat \<Rightarrow> jsfloat \<Rightarrow> jsfloat" where
  "fdiv (Frac a b) (Frac c d) =
     (if c = 0 then (if a = 0 then FNaN else signedInf (sgn a))
      else if 0 < c then fl (a * d) (b * c)
      else fl (- (a * d)) (b * (- c)))"
| "fdiv FNaN y = FNaN"
| "fdiv x FNaN = FNaN"
| "fdiv (Frac a b) y = Frac 0 1"
| "fdiv x (Frac c d) = signedInf (if c < 0 then - fsign x else fsign x)"
| "fdiv x y = FNaN"

text \<open>
  \<open>Math.round\<close>: the integer nearest to the number, the larger one of two that are
  equally near.
\<close>

fun Math_round :: "jsfloat \<Rightarrow> jsnum" where
  "Math_round (Frac a b) = Num ((2 * a + b) div (2 * b))"
| "Math_round FPosInf = PosInf"
| "Math_round FNegInf = NegInf"
| "Math_round FNaN = NaN"

subsection \<open>Text of a number\<close>

text \<open>
  A template literal such as \<open>`Merged ${nextCellId}`\<close> prints a number with
  \<open>Number::toString\<close>: the decimal digits of the integer when its magnitude is below
  \<open>2^53\<close>. A larger integer is printed as the double nearest to it, with the fewest
  significant digits that still denote that double, padded with zeros up to 21 digits and
  in exponent form beyond.
\<close>

definition digitChar :: "int \<Rightarrow> char" where
  "digitChar d = ''0123456789'' ! nat d"

function showNat :: "int \<Rightarrow> string" where
  "showNat n = (if n < 10 then [digitChar n] else showNat (n div 10) @ [digitChar (n mod 10)])"
  by pat_completeness auto
termination
  by (relation "measure nat") auto

declare showNat.simps [simp del]

text \<open>
  The double nearest to a natural number; \<open>None\<close> when it is beyond the largest double.
\<close>

definition nearestDouble :: "int \<Rightarrow> int option" where
  "nearestDouble n =
     (if bitlen n \<le> 53 then Some n
      else (let s = bitlen n - 53;
                m0 = n div 2 ^ s;
                r = n mod 2 ^ s;
                m = (if 2 ^ (s - 1) < r \<or> (r = 2 ^ (s - 1) \<and> odd m0) then m0 + 1 else m0)
            in if 971 < s \<or> (s = 971 \<and> 9007199254740992 \<le> m) then None
               else Some (m * 2 ^ s)))"

text \<open>
  The decimal number with the fewest significant digits that rounds to the double \<open>x\<close>:
  the multiples of \<open>10^j\<close> next to \<open>x\<close> are tried for \<open>j\<close> from the number of digits of \<open>x\<close>
  downwards; of two that round to \<open>x\<close> the nearer one is taken, the even one when they are
  equally near.
\<close>

fun shortestFrom :: "int \<Rightarrow> nat \<Rightarrow> int" where
  "shortestFrom x 0 = x"
| "shortestFrom x (Suc j) =
     (let p = 10 ^ Suc j;
          lo = (x div p) * p;
          hi = lo + p;
          okLo = (0 < lo \<and> nearestDouble lo = Some x);
          okHi = (nearestDouble hi = Some x)
      in if okLo \<and> okHi
         then (if x - lo < hi - x then lo
               else if hi - x < x - lo then hi
               else if even (lo div p) then lo else hi)
         else if okLo then lo
         else if okHi then hi
         else shortestFrom x j)"

definition showDouble :: "int \<Rightarrow> string" where
  "showDouble x =
     (let s = showNat (shortestFrom x (length (showNat x)))
      in if length s \<le> 21 then s
         else (case rev (dropWhile (\<lambda>c. c = CHR ''0'') (rev s)) of
                 [] \<Rightarrow> s
               | c # cs \<Rightarrow> c # (if cs = [] then [] else CHR ''.'' # cs)
                            @ ''e+'' @ showNat (int (length s) - 1)))"

definition showPos :: "int \<Rightarrow> string" where
  "showPos n =
     (if n < 9007199254740992 then showNat n
      else (case nearestDouble n of None \<Rightarrow> ''Infinity'' | Some x \<Rightarrow> showDouble x))"

definition showInt :: "int \<Rightarrow> string" where
  "showInt i = (if i < 0 then CHR ''-'' # showPos (- i) else showPos i)"

fun showNum :: "jsnum \<Rightarrow> string" where
  "showNum (Num i) = showInt i"
| "showNum PosInf = ''Infinity''"
| "showNum NegInf = ''-Infinity''"
| "showNum NaN = ''NaN''"

section \<open>Data model of the table generator (src/app/page.tsx)\<close>

text \<open>
  The component keeps its state in React hooks: \<open>config\<close>, \<open>mergedCells\<close>,
  \<open>nextCellId\<close>, \<open>selectedCells\<close>, \<open>dragState\<close> and the ref \<open>lastDragUpdate\<close>.
  The model collects them in one record and passes it through every handler. TypeScript
  numbers that hold table dimensions, pixel sizes, pointer positions and ids are modelled
  as integers; the coordinates of a span are numbers that may also be \<open>NaN\<close> or infinite
  (section Numbers).
\<close>

datatype BorderStyle = BS_solid | BS_dashed | BS_none

record TableConfig =
  rows :: int
  columns :: int
  gap :: int
  borderStyle :: BorderStyle
  borderColor :: string
  cellPadding :: int
  cellBackgroundColor :: string
  borderRadius :: int
  fillSampleText :: bool
  columnWidths :: "int list"
  rowHeights :: "int list"

record MergedCell =
  id' :: int
  rowStart :: jsnum
  rowEnd :: jsnum
  colStart :: jsnum
  colEnd :: jsnum
  content :: string

record SelectedCell =
  row :: int
  col :: int

record DragState =
  isDragging :: bool
  cellId :: "int option"
  startX :: int
  startY :: int
  offsetX :: int
  offsetY :: int
  currentX :: int
  currentY :: int
  isResizing :: bool
  isResizingColumn :: bool
  isResizingRow :: bool
  isResizingIndividualCell :: bool
  resizingColumnIndex :: "int option"
  resizingRowIndex :: "int option"
  resizingCellRow :: "int option"
  resizingCellCol :: "int option"

record AppState =
  config :: TableConfig
  mergedCells :: "MergedCell list"
  nextCellId :: int
  selectedCells :: "SelectedCell list"
  dragState :: DragState
  lastDragUpdate :: int

text \<open>The values of the \<open>useState\<close> initialisers (lines 48-86).\<close>

definition defaultConfig :: TableConfig where
  "defaultConfig =
     \<lparr>rows = 3, columns = 3, gap = 8, borderStyle = BS_solid, borderColor = ''#000000'',
      cellPadding = 8, cellBackgroundColor = ''#ffffff'', borderRadius = 0,
      fillSampleText = False, columnWidths = replicate 3 80, rowHeights = replicate 3 50\<rparr>"

definition idleDrag :: DragState where
  "idleDrag =
     \<lparr>isDragging = False, cellId = None, startX = 0, startY = 0, offsetX = 0, offsetY = 0,
      currentX = 0, currentY = 0, isResizing = False, isResizingColumn = False,
      isResizingRow = False, isResizingIndividualCell = False, resizingColumnIndex = None,
      resizingRowIndex = None, resizingCellRow = None, resizingCellCol = None\<rparr>"

definition initialState :: AppState where
  "initialState =
     \<lparr>config = defaultConfig, mergedCells = [], nextCellId = 1, selectedCells = [],
      dragState = idleDrag, lastDragUpdate = 0\<rparr>"

section \<open>Merge registry\<close>

text \<open>
  The half-open rectangle test \<open>row >= cell.rowStart && row < cell.rowEnd &&
  col >= cell.colStart && col < cell.colEnd\<close> is written out three times in the source
  (lines 100-101, 108-109 and 120-121); the model names it once.
\<close>

definition inRect :: "MergedCell \<Rightarrow> int \<Rightarrow> int \<Rightarrow> bool" where
  "inRect cell r c \<longleftrightarrow>
     jsGe (Num r) (rowStart cell) \<and> jsLess (Num r) (rowEnd cell) \<and>
     jsGe (Num c) (colStart cell) \<and> jsLess (Num c) (colEnd cell)"

definition isCellMerged :: "AppState \<Rightarrow> int \<Rightarrow> int \<Rightarrow> bool" where
  "isCellMerged st r c = list_ex (\<lambda>cell. inRect cell r c) (mergedCells st)"

definition getMergedCell :: "AppState \<Rightarrow> int \<Rightarrow> int \<Rightarrow> MergedCell option" where
  "getMergedCell st r c = find (\<lambda>cell. inRect cell r c) (mergedCells st)"

text \<open>
  \<open>Math.min(...xs)\<close> and \<open>Math.max(...xs)\<close> over the rows and columns of a selection.
  On an empty argument list JavaScript yields an infinity; both call sites (lines 141
  and 808) run only when the selection holds at least two cells, so the functions are
  left without an equation for the empty list.
\<close>

fun Math_min :: "int list \<Rightarrow> int" where
  "Math_min (x # xs) = fold min xs x"

fun Math_max :: "int list \<Rightarrow> int" where
  "Math_max (x # xs) = fold max xs x"

text \<open>
  The callback handed to \<open>setTimeout\<close> at line 143 is a closure: it keeps the
  \<open>newSelection\<close>, the \<open>nextCellId\<close> and the \<open>config.fillSampleText\<close> of the render in
  which the click happened, and applies functional updates to the state current when it
  fires.
\<close>

record PendingMerge =
  newSelection :: "SelectedCell list"
  capturedId :: int
  capturedFill :: bool

definition newMergedCell :: "PendingMerge \<Rightarrow> MergedCell" where
  "newMergedCell p =
     (let minRow = Math_min (map row (newSelection p));
          maxRow = Math_max (map row (newSelection p));
          minCol = Math_min (map col (newSelection p));
          maxCol = Math_max (map col (newSelection p))
      in \<lparr>id' = capturedId p, rowStart = Num minRow, rowEnd = Num (maxRow + 1),
          colStart = Num minCol, colEnd = Num (maxCol + 1),
          content = (if capturedFill p then ''Merged '' @ showInt (capturedId p) else [])\<rparr>)"

definition mergeTimeout :: "PendingMerge \<Rightarrow> AppState \<Rightarrow> AppState" where
  "mergeTimeout p st =
     st\<lparr>mergedCells := mergedCells st @ [newMergedCell p],
        nextCellId := nextCellId st + 1,
        selectedCells := []\<rparr>"

text \<open>
  \<open>handleCellClick\<close> (lines 114-164). The result is the state after the synchronous part
  of the handler, and the timer it has scheduled, if any.
\<close>

definition isSelectedAt :: "AppState \<Rightarrow> int \<Rightarrow> int \<Rightarrow> bool" where
  "isSelectedAt st r c = list_ex (\<lambda>cell. row cell = r \<and> col cell = c) (selectedCells st)"

definition handleCellClick :: "int \<Rightarrow> int \<Rightarrow> AppState \<Rightarrow> AppState \<times> PendingMerge option" where
  "handleCellClick r c st =
     (if isDragging (dragState st) \<or> isResizing (dragState st)
         \<or> isResizingColumn (dragState st) \<or> isResizingRow (dragState st)
      then (st, None)
      else if isCellMerged st r c
      then (st\<lparr>mergedCells := filter (\<lambda>cell. \<not> inRect cell r c) (mergedCells st),
               selectedCells := []\<rparr>, None)
      else if isSelectedAt st r c
      then (st\<lparr>selectedCells :=
                  filter (\<lambda>cell. \<not> (row cell = r \<and> col cell = c)) (selectedCells st)\<rparr>, None)
      else (let sel = selectedCells st @ [\<lparr>row = r, col = c\<rparr>]
            in (st\<lparr>selectedCells := sel\<rparr>,
                if length sel \<ge> 2
                then Some \<lparr>newSelection = sel, capturedId = nextCellId st,
                           capturedFill = fillSampleText (config st)\<rparr>
                else None)))"

text \<open>A click whose timer, when one was scheduled, fires before any other event.\<close>

definition clickCell :: "int \<Rightarrow> int \<Rightarrow> AppState \<Rightarrow> AppState" where
  "clickCell r c st =
     (case handleCellClick r c st of
        (st', None) \<Rightarrow> st'
      | (st', Some p) \<Rightarrow> mergeTimeout p st')"

text \<open>
  The "Merge Selected Cells" button (lines 808-828), rendered only while
  \<open>selectedCells.length >= 2\<close>.
\<close>

definition mergeSelectedButton :: "AppState \<Rightarrow> AppState" where
  "mergeSelectedButton st =
     (if length (selectedCells st) \<ge> 2
      then mergeTimeout \<lparr>newSelection = selectedCells st, capturedId = nextCellId st,
                         capturedFill = fillSampleText (config st)\<rparr> st
      else st)"

text \<open>The remove button of a merged cell (lines 933-936) filters by id.\<close>

definition removeButton :: "int \<Rightarrow> AppState \<Rightarrow> AppState" where
  "removeButton mid st = st\<lparr>mergedCells := filter (\<lambda>cell. id' cell \<noteq> mid) (mergedCells st)\<rparr>"

section \<open>Drag sessions on merged cells\<close>

text \<open>
  \<open>handleDragStart\<close> (lines 251-273) and \<open>handleResizeStart\<close> (lines 276-297). The
  arguments are the pointer position of the event and, for a move, the corner of the
  handle's bounding rectangle.
\<close>

definition handleDragStart :: "int \<Rightarrow> int \<Rightarrow> int \<Rightarrow> int \<Rightarrow> int \<Rightarrow> AppState \<Rightarrow> AppState" where
  "handleDragStart clientX clientY rectLeft rectTop mid st =
     st\<lparr>dragState := (dragState st)
          \<lparr>isDragging := True, isResizing := False, isResizingColumn := False,
           isResizingRow := False, cellId := Some mid, startX := clientX, startY := clientY,
           offsetX := clientX - rectLeft, offsetY := clientY - rectTop,
           currentX := clientX, currentY := clientY\<rparr>\<rparr>"

definition handleResizeStart :: "int \<Rightarrow> int \<Rightarrow> int \<Rightarrow> AppState \<Rightarrow> AppState" where
  "handleResizeStart clientX clientY mid st =
     st\<lparr>dragState := (dragState st)
          \<lparr>isDragging := False, isResizing := True, isResizingColumn := False,
           isResizingRow := False, cellId := Some mid, startX := clientX, startY := clientY,
           offsetX := 0, offsetY := 0, currentX := clientX, currentY := clientY\<rparr>\<rparr>"

text \<open>\<open>handleDragEnd\<close> (lines 444-467) clears the session unconditionally.\<close>

definition handleDragEnd :: "AppState \<Rightarrow> AppState" where
  "handleDragEnd st =
     st\<lparr>dragState := (dragState st)
          \<lparr>isDragging := False, isResizing := False, isResizingColumn := False,
           isResizingRow := False, isResizingIndividualCell := False, cellId := None,
           startX := 0, startY := 0, offsetX := 0, offsetY := 0, currentX := 0, currentY := 0,
           resizingColumnIndex := None, resizingRowIndex := None,
           resizingCellRow := None, resizingCellCol := None\<rparr>\<rparr>"

text \<open>
  The callback of \<open>prev.map\<close> in \<open>handleDragMove\<close> (lines 327-355): the span whose id is
  the dragged one is shifted by the grid delta and clamped into the table; every other
  span is returned as it is.
\<close>

definition moveCell :: "TableConfig \<Rightarrow> int \<Rightarrow> jsnum \<Rightarrow> jsnum \<Rightarrow> MergedCell \<Rightarrow> MergedCell" where
  "moveCell cfg mid colDelta rowDelta cell =
     (if id' cell = mid
      then (let rowSpan = jsSub (rowEnd cell) (rowStart cell);
                colSpan = jsSub (colEnd cell) (colStart cell);
                newColStart = jsMax (Num 0) (jsMin (jsAdd (colStart cell) colDelta)
                                                   (jsSub (Num (columns cfg)) colSpan));
                newRowStart = jsMax (Num 0) (jsMin (jsAdd (rowStart cell) rowDelta)
                                                   (jsSub (Num (rows cfg)) rowSpan))
            in if jsEq newColStart (colStart cell) \<and> jsEq newRowStart (rowStart cell) then cell
               else cell\<lparr>colStart := newColStart, colEnd := jsAdd newColStart colSpan,
                         rowStart := newRowStart, rowEnd := jsAdd newRowStart rowSpan\<rparr>)
      else cell)"

text \<open>
  The callback of \<open>prev.map\<close> in \<open>handleResizeMove\<close> (lines 382-414): only \<open>colEnd\<close>
  and \<open>rowEnd\<close> of the dragged span change.
\<close>

definition resizeCell :: "TableConfig \<Rightarrow> int \<Rightarrow> jsnum \<Rightarrow> jsnum \<Rightarrow> MergedCell \<Rightarrow> MergedCell" where
  "resizeCell cfg mid colDelta rowDelta cell =
     (if id' cell = mid
      then (let originalColSpan = jsSub (colEnd cell) (colStart cell);
                originalRowSpan = jsSub (rowEnd cell) (rowStart cell);
                newColEnd = jsMax (jsAdd (colStart cell) (Num 1))
                                  (jsMin (jsAdd (jsAdd (colStart cell) originalColSpan) colDelta)
                                         (Num (columns cfg)));
                newRowEnd = jsMax (jsAdd (rowStart cell) (Num 1))
                                  (jsMin (jsAdd (jsAdd (rowStart cell) originalRowSpan) rowDelta)
                                         (Num (rows cfg)))
            in if jsEq newColEnd (colEnd cell) \<and> jsEq newRowEnd (rowEnd cell) then cell
               else cell\<lparr>colEnd := newColEnd, rowEnd := newRowEnd\<rparr>)
      else cell)"

text \<open>
  The grid delta of a drag (lines 318-322 and 372-377):
  \<open>Math.round((delta * sensitivity) / (avgCellSize + config.gap))\<close>, where \<open>avgCellSize\<close> is
  the sum of the sizing array divided by its length. The quotient is \<open>NaN\<close> when the array is
  empty, and when the divisor is zero it is \<open>NaN\<close> for a zero delta and infinite otherwise.
  The sensitivity of a move is 1.0, that of a resize the double written \<open>1.2\<close>.
\<close>

definition gridDelta :: "int \<Rightarrow> jsfloat \<Rightarrow> int list \<Rightarrow> int \<Rightarrow> jsnum" where
  "gridDelta delta sensitivity sizes gapPx =
     (let total = fold (\<lambda>size acc. fadd acc (ofInt size)) sizes (ofInt 0);
          avgCellSize = fdiv total (ofInt (int (length sizes)))
      in Math_round (fdiv (fmul (ofInt delta) sensitivity) (fadd avgCellSize (ofInt gapPx))))"

definition moveSensitivity :: jsfloat where
  "moveSensitivity = Frac 1 1"

definition resizeSensitivity :: jsfloat where
  "resizeSensitivity = Frac 5404319552844595 4503599627370496"

text \<open>
  \<open>handleDragMove\<close> (lines 300-356) and \<open>handleResizeMove\<close> (lines 359-415). The handlers
  return early when no session of their kind is active or its \<open>cellId\<close> is falsy
  (\<open>null\<close> or \<open>0\<close>), the move handler also within 16 ms of the last applied move, and both
  when the pointer is still inside the jitter threshold. The table element of \<open>tableRef\<close>
  is taken to be mounted. The arguments are the time of the event (for a move) and the
  pointer position.
\<close>

definition handleDragMove :: "int \<Rightarrow> int \<Rightarrow> int \<Rightarrow> AppState \<Rightarrow> AppState" where
  "handleDragMove now clientX clientY st =
     (case cellId (dragState st) of
        None \<Rightarrow> st
      | Some mid \<Rightarrow>
          if \<not> isDragging (dragState st) \<or> mid = 0 then st
          else if now - lastDragUpdate st < 16 then st
          else (let st1 = st\<lparr>lastDragUpdate := now\<rparr>;
                    deltaX = clientX - startX (dragState st);
                    deltaY = clientY - startY (dragState st);
                    colDelta = gridDelta deltaX moveSensitivity
                                 (columnWidths (config st)) (gap (config st));
                    rowDelta = gridDelta deltaY moveSensitivity
                                 (rowHeights (config st)) (gap (config st))
                in if \<bar>deltaX\<bar> < 8 \<and> \<bar>deltaY\<bar> < 8 then st1
                   else st1\<lparr>mergedCells :=
                              map (moveCell (config st) mid colDelta rowDelta) (mergedCells st)\<rparr>))"

definition handleResizeMove :: "int \<Rightarrow> int \<Rightarrow> AppState \<Rightarrow> AppState" where
  "handleResizeMove clientX clientY st =
     (case cellId (dragState st) of
        None \<Rightarrow> st
      | Some mid \<Rightarrow>
          if \<not> isResizing (dragState st) \<or> mid = 0 then st
          else (let deltaX = clientX - startX (dragState st);
                    deltaY = clientY - startY (dragState st);
                    colDelta = gridDelta deltaX resizeSensitivity
                                 (columnWidths (config st)) (gap (config st));
                    rowDelta = gridDelta deltaY resizeSensitivity
                                 (rowHeights (config st)) (gap (config st))
                in if \<bar>deltaX\<bar> < 10 \<and> \<bar>deltaY\<bar> < 10 then st
                   else st\<lparr>mergedCells :=
                             map (resizeCell (config st) mid colDelta rowDelta) (mergedCells st)\<rparr>))"

section \<open>Grid configuration\<close>

text \<open>
  \<open>updateConfig\<close> (lines 571-573) stores one field: \<open>setConfig(prev => ({ ...prev,
  [key]: value }))\<close>. The key and its value are modelled as one constructor per key the
  control panel uses (lines 669-791).
\<close>

datatype ConfigUpdate =
    Set_rows int
  | Set_columns int
  | Set_gap int
  | Set_borderStyle BorderStyle
  | Set_borderColor string
  | Set_cellPadding int
  | Set_cellBackgroundColor string
  | Set_borderRadius int
  | Set_fillSampleText bool

fun updateConfig :: "ConfigUpdate \<Rightarrow> AppState \<Rightarrow> AppState" where
  "updateConfig (Set_rows v) st = st\<lparr>config := (config st)\<lparr>rows := v\<rparr>\<rparr>"
| "updateConfig (Set_columns v) st = st\<lparr>config := (config st)\<lparr>columns := v\<rparr>\<rparr>"
| "updateConfig (Set_gap v) st = st\<lparr>config := (config st)\<lparr>gap := v\<rparr>\<rparr>"
| "updateConfig (Set_borderStyle v) st = st\<lparr>config := (config st)\<lparr>borderStyle := v\<rparr>\<rparr>"
| "updateConfig (Set_borderColor v) st = st\<lparr>config := (config st)\<lparr>borderColor := v\<rparr>\<rparr>"
| "updateConfig (Set_cellPadding v) st = st\<lparr>config := (config st)\<lparr>cellPadding := v\<rparr>\<rparr>"
| "updateConfig (Set_cellBackgroundColor v) st =
     st\<lparr>config := (config st)\<lparr>cellBackgroundColor := v\<rparr>\<rparr>"
| "updateConfig (Set_borderRadius v) st = st\<lparr>config := (config st)\<lparr>borderRadius := v\<rparr>\<rparr>"
| "updateConfig (Set_fillSampleText v) st = st\<lparr>config := (config st)\<lparr>fillSampleText := v\<rparr>\<rparr>"

text \<open>
  The numeric inputs pass \<open>parseInt(e.target.value) || d\<close>. \<open>parseInt\<close> yields an integer
  or \<open>NaN\<close> (here \<open>None\<close>); \<open>||\<close> replaces the falsy results \<open>NaN\<close> and \<open>0\<close> by the
  default \<open>d\<close>.
\<close>

definition orDefault :: "int option \<Rightarrow> int \<Rightarrow> int" where
  "orDefault parsed d = (case parsed of None \<Rightarrow> d | Some v \<Rightarrow> if v = 0 then d else v)"

definition onColumnsChange :: "int option \<Rightarrow> AppState \<Rightarrow> AppState" where
  "onColumnsChange parsed st = updateConfig (Set_columns (orDefault parsed 1)) st"

definition onRowsChange :: "int option \<Rightarrow> AppState \<Rightarrow> AppState" where
  "onRowsChange parsed st = updateConfig (Set_rows (orDefault parsed 1)) st"

definition onGapChange :: "int option \<Rightarrow> AppState \<Rightarrow> AppState" where
  "onGapChange parsed st = updateConfig (Set_gap (orDefault parsed 0)) st"

definition onPaddingChange :: "int option \<Rightarrow> AppState \<Rightarrow> AppState" where
  "onPaddingChange parsed st = updateConfig (Set_cellPadding (orDefault parsed 0)) st"

definition onRadiusChange :: "int option \<Rightarrow> AppState \<Rightarrow> AppState" where
  "onRadiusChange parsed st = updateConfig (Set_borderRadius (orDefault parsed 0)) st"

text \<open>
  The effect of lines 89-95 runs after a render in which \<open>config.columns\<close> or
  \<open>config.rows\<close> differs from the previous render. \<open>Array(n)\<close> throws a \<open>RangeError\<close>
  unless \<open>n\<close> is an integer from 0 to 4294967295.
\<close>

datatype error = RangeError

definition Array_fill :: "int \<Rightarrow> int \<Rightarrow> error + int list" where
  "Array_fill n v = (if n < 0 \<or> n > 4294967295 then Inl RangeError else Inr (replicate (nat n) v))"

definition sizeEffect :: "AppState \<Rightarrow> error + AppState" where
  "sizeEffect st =
     (case Array_fill (columns (config st)) 80 of
        Inl e \<Rightarrow> Inl e
      | Inr ws \<Rightarrow>
          (case Array_fill (rows (config st)) 50 of
             Inl e \<Rightarrow> Inl e
           | Inr hs \<Rightarrow> Inr (st\<lparr>config := (config st)\<lparr>columnWidths := ws, rowHeights := hs\<rparr>\<rparr>)))"

text \<open>A state update followed by the render it causes and the effects of that render.\<close>

definition afterRender :: "AppState \<Rightarrow> AppState \<Rightarrow> error + AppState" where
  "afterRender prev st =
     (if columns (config st) \<noteq> columns (config prev) \<or> rows (config st) \<noteq> rows (config prev)
      then sizeEffect st else Inr st)"

definition changeConfig :: "ConfigUpdate \<Rightarrow> AppState \<Rightarrow> error + AppState" where
  "changeConfig u st = afterRender st (updateConfig u st)"

text \<open>\<open>resetTable\<close> (lines 576-593).\<close>

definition resetTable :: "AppState \<Rightarrow> AppState" where
  "resetTable st = st\<lparr>config := defaultConfig, mergedCells := [], selectedCells := [],
                      nextCellId := 1\<rparr>"

section \<open>Axis sizing\<close>

text \<open>\<open>xs.map((x, index) => index === i ? v : x)\<close>\<close>

definition replaceAt :: "int \<Rightarrow> 'a \<Rightarrow> 'a list \<Rightarrow> 'a list" where
  "replaceAt i v xs = map (\<lambda>(index, x). if int index = i then v else x) (enumerate 0 xs)"

definition handleColumnResizeStart :: "int \<Rightarrow> int \<Rightarrow> AppState \<Rightarrow> AppState" where
  "handleColumnResizeStart clientX columnIndex st =
     st\<lparr>dragState := (dragState st)
          \<lparr>isResizingColumn := True, resizingColumnIndex := Some columnIndex,
           startX := clientX, currentX := clientX\<rparr>\<rparr>"

definition handleRowResizeStart :: "int \<Rightarrow> int \<Rightarrow> AppState \<Rightarrow> AppState" where
  "handleRowResizeStart clientY rowIndex st =
     st\<lparr>dragState := (dragState st)
          \<lparr>isResizingRow := True, resizingRowIndex := Some rowIndex,
           startY := clientY, currentY := clientY\<rparr>\<rparr>"

definition handleIndividualCellResizeStart :: "int \<Rightarrow> int \<Rightarrow> int \<Rightarrow> int \<Rightarrow> AppState \<Rightarrow> AppState" where
  "handleIndividualCellResizeStart clientX clientY r c st =
     st\<lparr>dragState := (dragState st)
          \<lparr>isResizingIndividualCell := True, resizingCellRow := Some r, resizingCellCol := Some c,
           startX := clientX, startY := clientY, currentX := clientX, currentY := clientY\<rparr>\<rparr>"

text \<open>
  The move handlers of lines 221-248 and 418-441. An index outside the array reads
  \<open>undefined\<close> in the source and the new size becomes \<open>NaN\<close>, but then no element of the
  \<open>map\<close> has that index and the array is returned unchanged, as \<open>replaceAt\<close> does.
\<close>

definition handleColumnResizeMove :: "int \<Rightarrow> AppState \<Rightarrow> AppState" where
  "handleColumnResizeMove clientX st =
     (case resizingColumnIndex (dragState st) of
        None \<Rightarrow> st
      | Some i \<Rightarrow>
          if \<not> isResizingColumn (dragState st) then st
          else (let deltaX = clientX - startX (dragState st);
                    newWidth = max 40 (columnWidths (config st) ! nat i + deltaX)
                in st\<lparr>config := (config st)
                        \<lparr>columnWidths := replaceAt i newWidth (columnWidths (config st))\<rparr>\<rparr>))"

definition handleRowResizeMove :: "int \<Rightarrow> AppState \<Rightarrow> AppState" where
  "handleRowResizeMove clientY st =
     (case resizingRowIndex (dragState st) of
        None \<Rightarrow> st
      | Some i \<Rightarrow>
          if \<not> isResizingRow (dragState st) then st
          else (let deltaY = clientY - startY (dragState st);
                    newHeight = max 30 (rowHeights (config st) ! nat i + deltaY)
                in st\<lparr>config := (config st)
                        \<lparr>rowHeights := replaceAt i newHeight (rowHeights (config st))\<rparr>\<rparr>))"

definition handleIndividualCellResizeMove :: "int \<Rightarrow> int \<Rightarrow> AppState \<Rightarrow> AppState" where
  "handleIndividualCellResizeMove clientX clientY st =
     (case (resizingCellRow (dragState st), resizingCellCol (dragState st)) of
        (Some rowIndex, Some colIndex) \<Rightarrow>
          if \<not> isResizingIndividualCell (dragState st) then st
          else (let deltaX = clientX - startX (dragState st);
                    deltaY = clientY - startY (dragState st);
                    newColWidth = max 40 (columnWidths (config st) ! nat colIndex + deltaX);
                    newRowHeight = max 30 (rowHeights (config st) ! nat rowIndex + deltaY)
                in st\<lparr>config := (config st)
                        \<lparr>columnWidths := replaceAt colIndex newColWidth (columnWidths (config st)),
                         rowHeights := replaceAt rowIndex newRowHeight (rowHeights (config st))\<rparr>\<rparr>)
      | _ \<Rightarrow> st)"

section \<open>Renderer\<close>

text \<open>
  The inline border value shared by both generators (lines 497 and 529).
\<close>

definition borderStyleName :: "BorderStyle \<Rightarrow> string" where
  "borderStyleName b = (case b of BS_solid \<Rightarrow> ''solid'' | BS_dashed \<Rightarrow> ''dashed'' | BS_none \<Rightarrow> ''none'')"

definition borderText :: "TableConfig \<Rightarrow> string" where
  "borderText cfg =
     (if borderStyle cfg = BS_none then ''none''
      else ''1px '' @ borderStyleName (borderStyle cfg) @ '' '' @ borderColor cfg)"

subsection \<open>Markup\<close>

text \<open>The two template literals of lines 511 and 516.\<close>

definition mergedTd :: "AppState \<Rightarrow> MergedCell \<Rightarrow> string" where
  \<open>mergedTd st mergedCell =
     (let rowSpan = jsSub (rowEnd mergedCell) (rowStart mergedCell);
          colSpan = jsSub (colEnd mergedCell) (colStart mergedCell)
      in ''    <td style="border: '' @ borderText (config st)
         @ ''; padding: '' @ showInt (cellPadding (config st))
         @ ''px; background-color: '' @ cellBackgroundColor (config st)
         @ ''; border-radius: '' @ showInt (borderRadius (config st))
         @ ''px;" rowspan="'' @ showNum rowSpan @ ''" colspan="'' @ showNum colSpan @ ''">''
         @ content mergedCell @ ''</td>\<newline>'')\<close>

definition plainTd :: "AppState \<Rightarrow> int \<Rightarrow> int \<Rightarrow> string" where
  \<open>plainTd st i j =
     (let cellContent = (if fillSampleText (config st)
                         then ''Cell '' @ showInt (i + 1) @ ''-'' @ showInt (j + 1) else []);
          bgColor = (if isSelectedAt st i j then ''#dbeafe'' else cellBackgroundColor (config st))
      in ''    <td style="border: '' @ borderText (config st)
         @ ''; padding: '' @ showInt (cellPadding (config st))
         @ ''px; background-color: '' @ bgColor
         @ ''; border-radius: '' @ showInt (borderRadius (config st))
         @ ''px;">'' @ cellContent @ ''</td>\<newline>'')\<close>

text \<open>
  The body of the inner loop (lines 504-518): the cell element appended for coordinate
  \<open>(i, j)\<close>, or \<open>None\<close> when the coordinate is skipped.
\<close>

definition cellMarkup :: "AppState \<Rightarrow> int \<Rightarrow> int \<Rightarrow> string option" where
  "cellMarkup st i j =
     (case getMergedCell st i j of
        Some mergedCell \<Rightarrow>
          if jsEq (Num i) (rowStart mergedCell) \<and> jsEq (Num j) (colStart mergedCell)
          then Some (mergedTd st mergedCell)
          else if \<not> isCellMerged st i j then Some (plainTd st i j)
          else None
      | None \<Rightarrow> if \<not> isCellMerged st i j then Some (plainTd st i j) else None)"

definition appendCell :: "string \<Rightarrow> string option \<Rightarrow> string" where
  "appendCell html td = (case td of None \<Rightarrow> html | Some t \<Rightarrow> html @ t)"

text \<open>The two \<open>for\<close> loops of \<open>generateTableHTML\<close> (lines 501-521), appending to \<open>html\<close>.\<close>

function columnLoop :: "AppState \<Rightarrow> int \<Rightarrow> int \<Rightarrow> string \<Rightarrow> string" where
  "columnLoop st i j html =
     (if j < columns (config st)
      then columnLoop st i (j + 1) (appendCell html (cellMarkup st i j))
      else html)"
  by pat_completeness auto
termination
  by (relation "measure (\<lambda>(st, i, j, html). nat (columns (config st) - j))") auto

function rowLoop :: "AppState \<Rightarrow> int \<Rightarrow> string \<Rightarrow> string" where
  "rowLoop st i html =
     (if i < rows (config st)
      then rowLoop st (i + 1) (columnLoop st i 0 (html @ ''  <tr>\<newline>'') @ ''  </tr>\<newline>'')
      else html)"
  by pat_completeness auto
termination
  by (relation "measure (\<lambda>(st, i, html). nat (rows (config st) - i))") auto

declare columnLoop.simps [simp del] rowLoop.simps [simp del]

definition generateTableHTML :: "AppState \<Rightarrow> string" where
  \<open>generateTableHTML st =
     rowLoop st 0 ''<table style="border-collapse: collapse;">\<newline>'' @ ''</table>''\<close>

text \<open>
  The structure of the markup: the cell elements of row \<open>i\<close> in column order, and a row
  group around them.
\<close>

definition rowCells :: "AppState \<Rightarrow> int \<Rightarrow> string list" where
  "rowCells st i = List.map_filter (cellMarkup st i) [0..columns (config st) - 1]"

definition rowGroup :: "string list \<Rightarrow> string" where
  "rowGroup tds = ''  <tr>\<newline>'' @ concat tds @ ''  </tr>\<newline>''"

definition tableRows :: "AppState \<Rightarrow> string list list" where
  "tableRows st = map (rowCells st) [0..rows (config st) - 1]"

text \<open>
  A coordinate is subsumed when it lies in the rectangle of some span without being
  that span's top-left anchor.
\<close>

definition subsumed :: "AppState \<Rightarrow> int \<Rightarrow> int \<Rightarrow> bool" where
  "subsumed st i j =
     list_ex (\<lambda>cell. inRect cell i j \<and> \<not> (rowStart cell = Num i \<and> colStart cell = Num j))
       (mergedCells st)"

subsection \<open>Stylesheet\<close>

definition tableRule :: string where
  "tableRule = ''table {\<newline>  border-collapse: collapse;\<newline>  width: 100%;\<newline>}''"

definition cellRule :: "TableConfig \<Rightarrow> string" where
  "cellRule cfg =
     ''td {\<newline>  border: '' @ borderText cfg
     @ '';\<newline>  padding: '' @ showInt (cellPadding cfg)
     @ ''px;\<newline>  background-color: '' @ cellBackgroundColor cfg
     @ '';\<newline>  border-radius: '' @ showInt (borderRadius cfg) @ ''px;\<newline>}''"

text \<open>The initial template literal of lines 531-541: the two rules and a blank line between.\<close>

definition cssBase :: "TableConfig \<Rightarrow> string" where
  "cssBase cfg = tableRule @ ''\<newline>\<newline>'' @ cellRule cfg"

definition widthRule :: "nat \<times> int \<Rightarrow> string" where
  "widthRule = (\<lambda>(index, width).
     ''\<newline>\<newline>td:nth-child('' @ showInt (int index + 1) @ '') {\<newline>  width: ''
     @ showInt width @ ''px;\<newline>}'')"

definition heightRule :: "nat \<times> int \<Rightarrow> string" where
  "heightRule = (\<lambda>(index, height).
     ''\<newline>\<newline>tr:nth-child('' @ showInt (int index + 1) @ '') td {\<newline>  height: ''
     @ showInt height @ ''px;\<newline>}'')"

text \<open>
  \<open>generateCSS\<close> (lines 528-558): the two \<open>forEach\<close> loops append one rule per element
  of \<open>columnWidths\<close> and of \<open>rowHeights\<close>, with the element's index.
\<close>

definition generateCSS :: "AppState \<Rightarrow> string" where
  "generateCSS st =
     (let css = cssBase (config st);
          css = fold (\<lambda>e css. css @ widthRule e) (enumerate 0 (columnWidths (config st))) css;
          css = fold (\<lambda>e css. css @ heightRule e) (enumerate 0 (rowHeights (config st))) css
      in css)"

section \<open>Events\<close>

text \<open>
  While a session is active, the effect of lines 470-493 attaches exactly one
  \<open>mousemove\<close> listener, chosen in this order, and \<open>handleDragEnd\<close> for \<open>mouseup\<close>.
\<close>

definition mouseMove :: "int \<Rightarrow> int \<Rightarrow> int \<Rightarrow> AppState \<Rightarrow> AppState" where
  "mouseMove now clientX clientY st =
     (if isResizingColumn (dragState st) then handleColumnResizeMove clientX st
      else if isResizingRow (dragState st) then handleRowResizeMove clientY st
      else if isResizing (dragState st) then handleResizeMove clientX clientY st
      else if isResizingIndividualCell (dragState st)
      then handleIndividualCellResizeMove clientX clientY st
      else if isDragging (dragState st)
      then handleDragMove now clientX clientY st
      else st)"

datatype Event =
    CellClick int int
  | MergeButton
  | RemoveButton int
  | ConfigChange ConfigUpdate
  | Reset
  | DragStart int int int int int
  | ResizeStart int int int
  | ColumnResizeStart int int
  | RowResizeStart int int
  | IndividualCellResizeStart int int int int
  | MouseMove int int int
  | MouseUp

text \<open>
  One event, with the renders and effects it causes. A cell click is taken together with
  the timer it schedules: the timer fires before the next event.
\<close>

fun step :: "Event \<Rightarrow> AppState \<Rightarrow> error + AppState" where
  "step (CellClick r c) st = Inr (clickCell r c st)"
| "step MergeButton st = Inr (mergeSelectedButton st)"
| "step (RemoveButton mid) st = Inr (removeButton mid st)"
| "step (ConfigChange u) st = changeConfig u st"
| "step Reset st = afterRender st (resetTable st)"
| "step (DragStart x y l t mid) st = Inr (handleDragStart x y l t mid st)"
| "step (ResizeStart x y mid) st = Inr (handleResizeStart x y mid st)"
| "step (ColumnResizeStart x i) st = Inr (handleColumnResizeStart x i st)"
| "step (RowResizeStart y i) st = Inr (handleRowResizeStart y i st)"
| "step (IndividualCellResizeStart x y r c) st = Inr (handleIndividualCellResizeStart x y r c st)"
| "step (MouseMove now x y) st = Inr (mouseMove now x y st)"
| "step MouseUp st = Inr (handleDragEnd st)"

fun run :: "Event list \<Rightarrow> AppState \<Rightarrow> error + AppState" where
  "run [] st = Inr st"
| "run (ev # evs) st = (case step ev st of Inl e \<Rightarrow> Inl e | Inr st' \<Rightarrow> run evs st')"

text \<open>The span an event synthesises, if it does: its id is the id the event assigns.\<close>

fun created :: "Event \<Rightarrow> AppState \<Rightarrow> MergedCell option" where
  "created (CellClick r c) st = map_option newMergedCell (snd (handleCellClick r c st))"
| "created MergeButton st =
     (if length (selectedCells st) \<ge> 2
      then Some (newMergedCell \<lparr>newSelection = selectedCells st, capturedId = nextCellId st,
                                capturedFill = fillSampleText (config st)\<rparr>)
      else None)"
| "created _ st = None"

fun assignedIds :: "Event list \<Rightarrow> AppState \<Rightarrow> int list" where
  "assignedIds [] st = []"
| "assignedIds (ev # evs) st =
     (case created ev st of None \<Rightarrow> [] | Some m \<Rightarrow> [id' m])
     @ (case step ev st of Inl e \<Rightarrow> [] | Inr st' \<Rightarrow> assignedIds evs st')"

section \<open>Invariants\<close>

text \<open>The merged-span invariant with respect to the current table dimensions.\<close>

definition spanInBounds :: "TableConfig \<Rightarrow> MergedCell \<Rightarrow> bool" where
  "spanInBounds cfg cell \<longleftrightarrow>
     jsLe (Num 0) (rowStart cell) \<and> jsLess (rowStart cell) (rowEnd cell) \<and>
     jsLe (rowEnd cell) (Num (rows cfg)) \<and>
     jsLe (Num 0) (colStart cell) \<and> jsLess (colStart cell) (colEnd cell) \<and>
     jsLe (colEnd cell) (Num (columns cfg))"

definition spanInvariant :: "AppState \<Rightarrow> bool" where
  "spanInvariant st = list_all (spanInBounds (config st)) (mergedCells st)"

text \<open>Two spans are disjoint when no coordinate lies in both rectangles.\<close>

definition rectsOverlap :: "MergedCell \<Rightarrow> MergedCell \<Rightarrow> bool" where
  "rectsOverlap a b \<longleftrightarrow>
     jsLess (jsMax (rowStart a) (rowStart b)) (jsMin (rowEnd a) (rowEnd b)) \<and>
     jsLess (jsMax (colStart a) (colStart b)) (jsMin (colEnd a) (colEnd b))"

fun pairwiseDisjoint :: "MergedCell list \<Rightarrow> bool" where
  "pairwiseDisjoint [] = True"
| "pairwiseDisjoint (a # bs) = (list_all (\<lambda>b. \<not> rectsOverlap a b) bs \<and> pairwiseDisjoint bs)"

text \<open>
  The extent condition of a resize step: the span ends after it starts and inside the
  table.
\<close>

definition extentOk :: "TableConfig \<Rightarrow> MergedCell \<Rightarrow> bool" where
  "extentOk cfg cell \<longleftrightarrow>
     jsLess (rowStart cell) (rowEnd cell) \<and> jsLe (rowEnd cell) (Num (rows cfg)) \<and>
     jsLess (colStart cell) (colEnd cell) \<and> jsLe (colEnd cell) (Num (columns cfg))"

section \<open>Example states\<close>

text \<open>
  States reached from the initial state by events: one selected cell; two disjoint
  spans (cells (0,0)-(0,1) and (1,0)-(2,0)); sessions on them; and the state after the
  second span was dragged one row up, where both spans cover (0,0).
\<close>

definition oneSelected :: AppState where
  "oneSelected = clickCell 0 0 initialState"


definition twoSpans :: AppState where
  "twoSpans = clickCell 2 0 (clickCell 1 0 (clickCell 0 1 (clickCell 0 0 initialState)))"

definition moveDemo :: AppState where
  "moveDemo = handleDragStart 100 100 90 90 2 twoSpans"

definition overlapDemo :: AppState where
  "overlapDemo = handleDragEnd (handleDragMove 1000 100 50 moveDemo)"

definition draggingState :: AppState where
  "draggingState = handleDragStart 100 100 90 90 1 twoSpans"

definition resizeDemo :: AppState where
  "resizeDemo = handleResizeStart 100 100 1 (clickCell 0 1 (clickCell 0 0 initialState))"

text \<open>
  The gap field set to -80, which cancels the mean column width of 80; then a span over
  the cells (0,0)-(0,1), and a resize session and a move session on it, both started at
  the pointer position (100, 100).
\<close>

definition negativeGap :: AppState where
  "negativeGap = clickCell 0 1 (clickCell 0 0 (onGapChange (Some (- 80)) initialState))"

definition negativeGapResize :: AppState where
  "negativeGapResize = handleResizeStart 100 100 1 negativeGap"

definition negativeGapMove :: AppState where
  "negativeGapMove = handleDragStart 100 100 90 90 1 negativeGap"

text \<open>
  A span over the cells (0,1)-(0,2) of the initial 3 x 3 table, and event sequences that
  create spans before and after a reset.
\<close>

definition rightSpan :: AppState where
  "rightSpan = clickCell 0 2 (clickCell 0 1 initialState)"

definition mergeTwice :: "Event list" where
  "mergeTwice = [CellClick 0 0, CellClick 0 1, CellClick 1 0, CellClick 2 0]"

definition mergeResetMerge :: "Event list" where
  "mergeResetMerge = [CellClick 0 0, CellClick 0 1, Reset, CellClick 0 0, CellClick 0 1]"

text \<open>A state in which the second column was widened by hand to 120 pixels.\<close>

definition manualSizes :: AppState where
  "manualSizes = handleDragEnd (handleColumnResizeMove 140 (handleColumnResizeStart 100 1 initialState))"

text \<open>
  A state with the default configuration except for the gap, two spans and one selected
  cell.
\<close>

definition busyState :: AppState where
  "busyState = updateConfig (Set_gap 20) (clickCell 1 1 twoSpans)"

section \<open>Events that keep the span invariant\<close>

text \<open>
  Cells are clickable only where the preview renders them, at coordinates inside the
  table. The selection holds such coordinates as long as the table does not shrink.
\<close>

definition cellInGrid :: "TableConfig \<Rightarrow> SelectedCell \<Rightarrow> bool" where
  "cellInGrid cfg cell \<longleftrightarrow>
     0 \<le> row cell \<and> row cell < rows cfg \<and> 0 \<le> col cell \<and> col cell < columns cfg"

definition gridInvariant :: "AppState \<Rightarrow> bool" where
  "gridInvariant st \<longleftrightarrow> spanInvariant st \<and> list_all (cellInGrid (config st)) (selectedCells st)"

fun clickInGrid :: "Event \<Rightarrow> AppState \<Rightarrow> bool" where
  "clickInGrid (CellClick r c) st = cellInGrid (config st) \<lparr>row = r, col = c\<rparr>"
| "clickInGrid _ st = True"

text \<open>The grid deltas a pointer move would compute are numbers.\<close>

fun deltasDefined :: "Event \<Rightarrow> AppState \<Rightarrow> bool" where
  "deltasDefined (MouseMove now x y) st =
     (gridDelta (x - startX (dragState st)) moveSensitivity
        (columnWidths (config st)) (gap (config st)) \<noteq> NaN \<and>
      gridDelta (y - startY (dragState st)) moveSensitivity
        (rowHeights (config st)) (gap (config st)) \<noteq> NaN \<and>
      gridDelta (x - startX (dragState st)) resizeSensitivity
        (columnWidths (config st)) (gap (config st)) \<noteq> NaN \<and>
      gridDelta (y - startY (dragState st)) resizeSensitivity
        (rowHeights (config st)) (gap (config st)) \<noteq> NaN)"
| "deltasDefined ev st = True"

fun isDimensionChange :: "Event \<Rightarrow> bool" where
  "isDimensionChange (ConfigChange (Set_rows v)) = True"
| "isDimensionChange (ConfigChange (Set_columns v)) = True"
| "isDimensionChange _ = False"

text \<open>
  Three cells clicked in a row, the third before the timer of the second has fired: both
  timers are pending, and they fire afterwards in the order they were scheduled.
\<close>

definition twoTimers :: AppState where
  "twoTimers =
     (case handleCellClick 0 1 oneSelected of
        (s1, Some p1) \<Rightarrow>
          (case handleCellClick 0 2 s1 of
             (s2, Some p2) \<Rightarrow> mergeTimeout p2 (mergeTimeout p1 s2)
           | (s2, None) \<Rightarrow> s2)
      | (s1, None) \<Rightarrow> s1)"

section \<open>Helper facts\<close>

lemma jsEq_Num [simp]: "jsEq (Num i) x \<longleftrightarrow> x = Num i"
  by (cases x) auto

lemma jsGe_Num: "jsGe (Num i) x \<longleftrightarrow> x = NegInf \<or> (\<exists>a. x = Num a \<and> a \<le> i)"
  by (cases x) (auto simp: jsGe_def)

lemma jsLess_Num: "jsLess (Num i) x \<longleftrightarrow> x = PosInf \<or> (\<exists>b. x = Num b \<and> i < b)"
  by (cases x) auto

lemma inRect_Num:
  "inRect \<lparr>id' = k, rowStart = Num a, rowEnd = Num b, colStart = Num c, colEnd = Num d,
           content = t\<rparr> i j \<longleftrightarrow> a \<le> i \<and> i < b \<and> c \<le> j \<and> j < d"
  by (auto simp: inRect_def jsGe_def)

lemma Math_min_Min: "xs \<noteq> [] \<Longrightarrow> Math_min xs = Min (set xs)"
proof (cases xs)
  case (Cons a as)
  then show ?thesis using Min.set_eq_fold [of a as] by simp
qed simp

lemma Math_max_Max: "xs \<noteq> [] \<Longrightarrow> Math_max xs = Max (set xs)"
proof (cases xs)
  case (Cons a as)
  then show ?thesis using Max.set_eq_fold [of a as] by simp
qed simp

lemma newMergedCell_box:
  assumes "newSelection p \<noteq> []"
  shows "rowStart (newMergedCell p) = Num (Min (row ` set (newSelection p)))"
    and "rowEnd (newMergedCell p) = Num (Max (row ` set (newSelection p)) + 1)"
    and "colStart (newMergedCell p) = Num (Min (col ` set (newSelection p)))"
    and "colEnd (newMergedCell p) = Num (Max (col ` set (newSelection p)) + 1)"
    and "id' (newMergedCell p) = capturedId p"
  using assms by (simp_all add: newMergedCell_def Let_def Math_min_Min Math_max_Max)


lemma isCellMerged_iff: "isCellMerged st r c \<longleftrightarrow> (\<exists>m \<in> set (mergedCells st). inRect m r c)"
  by (simp add: isCellMerged_def list_ex_iff)

lemma clickCell_completes:
  assumes "\<not> isDragging (dragState st)" "\<not> isResizing (dragState st)"
    "\<not> isResizingColumn (dragState st)" "\<not> isResizingRow (dragState st)"
    "\<not> isCellMerged st r c" "\<not> isSelectedAt st r c" "selectedCells st \<noteq> []"
  shows "clickCell r c st =
     mergeTimeout \<lparr>newSelection = selectedCells st @ [\<lparr>row = r, col = c\<rparr>],
                   capturedId = nextCellId st, capturedFill = fillSampleText (config st)\<rparr>
       (st\<lparr>selectedCells := selectedCells st @ [\<lparr>row = r, col = c\<rparr>]\<rparr>)"
proof -
  from assms(7) have "2 \<le> length (selectedCells st @ [\<lparr>row = r, col = c\<rparr>])"
    by (cases "selectedCells st") simp_all
  with assms show ?thesis
    by (simp add: clickCell_def handleCellClick_def Let_def)
qed

lemma clickCell_merged:
  assumes "\<not> isDragging (dragState st)" "\<not> isResizing (dragState st)"
    "\<not> isResizingColumn (dragState st)" "\<not> isResizingRow (dragState st)"
    "isCellMerged st r c"
  shows "clickCell r c st =
     st\<lparr>mergedCells := filter (\<lambda>cell. \<not> inRect cell r c) (mergedCells st), selectedCells := []\<rparr>"
  using assms by (simp add: clickCell_def handleCellClick_def)

lemma filter_single_remove1:
  "length (filter P xs) = 1 \<Longrightarrow>
     \<exists>x. find P xs = Some x \<and> filter (\<lambda>y. \<not> P y) xs = remove1 x xs"
proof (induction xs)
  case Nil
  then show ?case by simp
next
  case (Cons a as)
  show ?case
  proof (cases "P a")
    case True
    with Cons.prems have "filter P as = []" by simp
    then have "filter (\<lambda>y. \<not> P y) as = as"
      by (simp add: filter_empty_conv filter_id_conv)
    with True show ?thesis by simp
  next
    case False
    with Cons.prems have "length (filter P as) = 1" by simp
    from Cons.IH [OF this] obtain x
      where x: "find P as = Some x" "filter (\<lambda>y. \<not> P y) as = remove1 x as"
      by blast
    from x(1) have "P x" by (auto simp: find_Some_iff)
    with False have "x \<noteq> a" by auto
    with False x show ?thesis by simp
  qed
qed

lemma spanInBounds_Num:
  "spanInBounds cfg cell \<longleftrightarrow>
     (\<exists>a b c d. rowStart cell = Num a \<and> rowEnd cell = Num b \<and>
                colStart cell = Num c \<and> colEnd cell = Num d \<and>
                0 \<le> a \<and> a < b \<and> b \<le> rows cfg \<and> 0 \<le> c \<and> c < d \<and> d \<le> columns cfg)"
  by (cases "rowStart cell"; cases "rowEnd cell"; cases "colStart cell"; cases "colEnd cell")
     (auto simp: spanInBounds_def jsLe_def)

text \<open>
  With grid deltas other than \<open>NaN\<close>, the clamps of the two \<open>map\<close> callbacks keep a span
  that lies inside the table inside the table, a resize keeps its start and a move keeps
  its numbers of rows and columns.
\<close>

lemma resizeCell_inBounds:
  assumes "spanInBounds cfg cell" "cd \<noteq> NaN" "rd \<noteq> NaN"
  shows "spanInBounds cfg (resizeCell cfg mid cd rd cell)"
proof -
  from assms(1) obtain a b c d where
    n: "rowStart cell = Num a" "rowEnd cell = Num b" "colStart cell = Num c" "colEnd cell = Num d"
    and o: "0 \<le> a" "a < b" "b \<le> rows cfg" "0 \<le> c" "c < d" "d \<le> columns cfg"
    unfolding spanInBounds_Num by blast
  from assms(2,3) n o show ?thesis
    by (cases cd; cases rd)
       (auto simp: spanInBounds_Num resizeCell_def Let_def jsSub_def)
qed

lemma resizeCell_start:
  "rowStart (resizeCell cfg mid cd rd cell) = rowStart cell \<and>
   colStart (resizeCell cfg mid cd rd cell) = colStart cell \<and>
   id' (resizeCell cfg mid cd rd cell) = id' cell \<and>
   content (resizeCell cfg mid cd rd cell) = content cell"
  by (simp add: resizeCell_def Let_def)

lemma moveCell_inBounds:
  assumes "spanInBounds cfg cell" "cd \<noteq> NaN" "rd \<noteq> NaN"
  shows "spanInBounds cfg (moveCell cfg mid cd rd cell) \<and>
         jsSub (rowEnd (moveCell cfg mid cd rd cell)) (rowStart (moveCell cfg mid cd rd cell))
           = jsSub (rowEnd cell) (rowStart cell) \<and>
         jsSub (colEnd (moveCell cfg mid cd rd cell)) (colStart (moveCell cfg mid cd rd cell))
           = jsSub (colEnd cell) (colStart cell)"
proof -
  from assms(1) obtain a b c d where
    n: "rowStart cell = Num a" "rowEnd cell = Num b" "colStart cell = Num c" "colEnd cell = Num d"
    and o: "0 \<le> a" "a < b" "b \<le> rows cfg" "0 \<le> c" "c < d" "d \<le> columns cfg"
    unfolding spanInBounds_Num by blast
  from assms(2,3) n o show ?thesis
    by (cases cd; cases rd)
       (auto simp: spanInBounds_Num moveCell_def Let_def jsSub_def)
qed

lemma moveCell_frame:
  "id' (moveCell cfg mid cd rd cell) = id' cell \<and>
   content (moveCell cfg mid cd rd cell) = content cell"
  by (simp add: moveCell_def Let_def)

lemma moveCell_other: "id' cell \<noteq> mid \<Longrightarrow> moveCell cfg mid cd rd cell = cell"
  by (simp add: moveCell_def)

lemma resizeCell_other: "id' cell \<noteq> mid \<Longrightarrow> resizeCell cfg mid cd rd cell = cell"
  by (simp add: resizeCell_def)

lemma handleResizeMove_cases:
  "handleResizeMove x y st = st \<or>
   (\<exists>mid cd rd. cellId (dragState st) = Some mid \<and>
      cd = gridDelta (x - startX (dragState st)) resizeSensitivity
             (columnWidths (config st)) (gap (config st)) \<and>
      rd = gridDelta (y - startY (dragState st)) resizeSensitivity
             (rowHeights (config st)) (gap (config st)) \<and>
      handleResizeMove x y st =
        st\<lparr>mergedCells := map (resizeCell (config st) mid cd rd) (mergedCells st)\<rparr>)"
  by (auto simp: handleResizeMove_def Let_def split: option.splits)

lemma handleDragMove_cases:
  "mergedCells (handleDragMove now x y st) = mergedCells st \<or>
   (\<exists>mid cd rd. cellId (dragState st) = Some mid \<and>
      cd = gridDelta (x - startX (dragState st)) moveSensitivity
             (columnWidths (config st)) (gap (config st)) \<and>
      rd = gridDelta (y - startY (dragState st)) moveSensitivity
             (rowHeights (config st)) (gap (config st)) \<and>
      mergedCells (handleDragMove now x y st)
        = map (moveCell (config st) mid cd rd) (mergedCells st))"
  by (auto simp: handleDragMove_def Let_def split: option.splits)

text \<open>The example states are reached from the initial state by events.\<close>

lemma example_states_reachable:
  "run [CellClick 0 0] initialState = Inr oneSelected"
  "run [CellClick 0 0, CellClick 0 1, CellClick 1 0, CellClick 2 0] initialState = Inr twoSpans"
  "run [DragStart 100 100 90 90 2] twoSpans = Inr moveDemo"
  "run [MouseMove 1000 100 50, MouseUp] moveDemo = Inr overlapDemo"
  "run [DragStart 100 100 90 90 1] twoSpans = Inr draggingState"
  "run [CellClick 0 0, CellClick 0 1, ResizeStart 100 100 1] initialState = Inr resizeDemo"
  "run [CellClick 0 1, CellClick 0 2] initialState = Inr rightSpan"
  "run [ColumnResizeStart 100 1, MouseMove 0 140 0, MouseUp] initialState = Inr manualSizes"
  "run [ConfigChange (Set_gap (orDefault (Some (- 80)) 0)), CellClick 0 0, CellClick 0 1]
     initialState = Inr negativeGap"
  "run [ResizeStart 100 100 1] negativeGap = Inr negativeGapResize"
  "run [DragStart 100 100 90 90 1] negativeGap = Inr negativeGapMove"
  "run [CellClick 1 1, ConfigChange (Set_gap 20)] twoSpans = Inr busyState"
  by code_simp+

section \<open>Selection and merge\<close>

text \<open>
  A click schedules a merge exactly when it brings the selection to two or more
  coordinates, and the merge keeps the selection, the id counter and the sample-text flag
  of that moment. The merge button runs the same merge at once.
\<close>

lemma click_schedules_merge:
  assumes "handleCellClick r c st = (st', Some p)"
  shows "newSelection p = selectedCells st @ [\<lparr>row = r, col = c\<rparr>] \<and>
         2 \<le> length (newSelection p) \<and> capturedId p = nextCellId st \<and>
         selectedCells st' = newSelection p \<and> mergedCells st' = mergedCells st"
  using assms by (auto simp: handleCellClick_def Let_def split: if_splits)

lemma click_schedules_nothing_below_two:
  "selectedCells st = [] \<Longrightarrow> snd (handleCellClick r c st) = None"
  by (simp add: handleCellClick_def Let_def)

lemma mergeSelectedButton_merges:
  "2 \<le> length (selectedCells st) \<Longrightarrow>
     mergeSelectedButton st =
       mergeTimeout \<lparr>newSelection = selectedCells st, capturedId = nextCellId st,
                     capturedFill = fillSampleText (config st)\<rparr> st"
  by (simp add: mergeSelectedButton_def)



section \<open>Click to unmerge\<close>

text \<open>
  C5, as the claim states it, fails in two kinds of state. In \<open>overlapDemo\<close> the spans 1
  and 2 both cover (0,0), span 1 is the one \<open>getMergedCell\<close> finds, and the click empties
  the registry: span 2 is removed as well. In \<open>draggingState\<close> a move session is active
  and the click on the merged cell (0,0) removes nothing.
\<close>

theorem click_removes_only_owner_counterexample:
  "isCellMerged overlapDemo 0 0 \<and>
   getMergedCell overlapDemo 0 0
     = Some \<lparr>id' = 1, rowStart = Num 0, rowEnd = Num 1, colStart = Num 0, colEnd = Num 2, content = []\<rparr> \<and>
   mergedCells overlapDemo
     = [\<lparr>id' = 1, rowStart = Num 0, rowEnd = Num 1, colStart = Num 0, colEnd = Num 2, content = []\<rparr>,
        \<lparr>id' = 2, rowStart = Num 0, rowEnd = Num 2, colStart = Num 0, colEnd = Num 1, content = []\<rparr>] \<and>
   mergedCells (clickCell 0 0 overlapDemo) = [] \<and>
   isCellMerged draggingState 0 0 \<and>
   mergedCells (clickCell 0 0 draggingState) = mergedCells draggingState"
  by code_simp

text \<open>
  C5, amended. In a state with no move, resize, column-resize or row-resize session,
  clicking a coordinate covered by some span removes the owning span (the one
  \<open>getMergedCell\<close> finds) and clears the selection. Every span whose rectangle does not
  contain the clicked coordinate stays in the registry; the registry after the click is the
  old one restricted to the spans that stay, so no span is added, changed or reordered.
  When exactly one span contains the coordinate, the registry loses exactly the owning
  span.
\<close>

theorem click_removes_owner:
  assumes "\<not> isDragging (dragState st)" "\<not> isResizing (dragState st)"
    "\<not> isResizingColumn (dragState st)" "\<not> isResizingRow (dragState st)"
    "isCellMerged st r c"
  shows "\<exists>owner. getMergedCell st r c = Some owner \<and>
           owner \<in> set (mergedCells st) \<and>
           owner \<notin> set (mergedCells (clickCell r c st)) \<and>
           (\<forall>m \<in> set (mergedCells st). \<not> inRect m r c \<longrightarrow> m \<in> set (mergedCells (clickCell r c st))) \<and>
           mergedCells (clickCell r c st)
             = filter (\<lambda>m. m \<in> set (mergedCells (clickCell r c st))) (mergedCells st) \<and>
           selectedCells (clickCell r c st) = [] \<and>
           (length (filter (\<lambda>m. inRect m r c) (mergedCells st)) = 1 \<longrightarrow>
              mergedCells (clickCell r c st) = remove1 owner (mergedCells st))"
proof -
  have ms: "mergedCells (clickCell r c st) = filter (\<lambda>cell. \<not> inRect cell r c) (mergedCells st)"
    and sel: "selectedCells (clickCell r c st) = []"
    using clickCell_merged [OF assms] by simp_all
  from assms(5) obtain owner where o: "getMergedCell st r c = Some owner"
    by (cases "getMergedCell st r c")
       (auto simp: getMergedCell_def isCellMerged_iff find_None_iff)
  then have oin: "owner \<in> set (mergedCells st)" and ocov: "inRect owner r c"
    by (auto simp: getMergedCell_def find_Some_iff)
  have gone: "owner \<notin> set (mergedCells (clickCell r c st))"
    using ocov by (simp add: ms)
  have kept: "\<forall>m \<in> set (mergedCells st). \<not> inRect m r c \<longrightarrow> m \<in> set (mergedCells (clickCell r c st))"
    by (simp add: ms)
  have a: "set (mergedCells (clickCell r c st)) = {m \<in> set (mergedCells st). \<not> inRect m r c}"
    by (simp add: ms)
  have sub: "mergedCells (clickCell r c st)
             = filter (\<lambda>m. m \<in> set (mergedCells (clickCell r c st))) (mergedCells st)"
    unfolding a by (simp add: ms cong: filter_cong)
  have one: "length (filter (\<lambda>m. inRect m r c) (mergedCells st)) = 1 \<longrightarrow>
              mergedCells (clickCell r c st) = remove1 owner (mergedCells st)"
    using filter_single_remove1 [of "\<lambda>m. inRect m r c" "mergedCells st"] o
    by (auto simp: ms getMergedCell_def)
  from o oin gone kept sub sel one show ?thesis by blast
qed

theorem click_removes_owner_witness:
  "\<not> isDragging (dragState twoSpans) \<and> \<not> isResizing (dragState twoSpans) \<and>
   \<not> isResizingColumn (dragState twoSpans) \<and> \<not> isResizingRow (dragState twoSpans) \<and>
   isCellMerged twoSpans 0 1 \<and>
   length (filter (\<lambda>m. inRect m 0 1) (mergedCells twoSpans)) = 1 \<and>
   mergedCells (clickCell 0 1 twoSpans)
     = [\<lparr>id' = 2, rowStart = Num 1, rowEnd = Num 3, colStart = Num 0, colEnd = Num 1, content = []\<rparr>] \<and>
   (\<exists>owner. getMergedCell twoSpans 0 1 = Some owner \<and>
            mergedCells (clickCell 0 1 twoSpans) = remove1 owner (mergedCells twoSpans))"
proof -
  have h: "\<not> isDragging (dragState twoSpans)" "\<not> isResizing (dragState twoSpans)"
    "\<not> isResizingColumn (dragState twoSpans)" "\<not> isResizingRow (dragState twoSpans)"
    "isCellMerged twoSpans 0 1"
    by code_simp+
  have v: "length (filter (\<lambda>m. inRect m 0 1) (mergedCells twoSpans)) = 1"
    "mergedCells (clickCell 0 1 twoSpans)
     = [\<lparr>id' = 2, rowStart = Num 1, rowEnd = Num 3, colStart = Num 0, colEnd = Num 1, content = []\<rparr>]"
    by code_simp+
  from click_removes_owner [OF h] v(1) have
    "\<exists>owner. getMergedCell twoSpans 0 1 = Some owner \<and>
            mergedCells (clickCell 0 1 twoSpans) = remove1 owner (mergedCells twoSpans)"
    by blast
  with h v show ?thesis by blast
qed

section \<open>Moving and resizing a span\<close>

text \<open>
  The parts of a move and of a resize that hold in every state: the registry keeps its
  length, every span keeps its id and its content, and a span whose id is not the dragged
  one is the span that was there before.
\<close>

lemma move_keeps_other_spans:
  assumes "i < length (mergedCells st)"
  shows "length (mergedCells (handleDragMove now x y st)) = length (mergedCells st) \<and>
         id' (mergedCells (handleDragMove now x y st) ! i) = id' (mergedCells st ! i) \<and>
         content (mergedCells (handleDragMove now x y st) ! i) = content (mergedCells st ! i) \<and>
         (cellId (dragState st) \<noteq> Some (id' (mergedCells st ! i)) \<longrightarrow>
            mergedCells (handleDragMove now x y st) ! i = mergedCells st ! i)"
  using handleDragMove_cases [of now x y st] assms
  by (auto simp: moveCell_frame moveCell_other)

lemma resize_keeps_other_spans:
  assumes "i < length (mergedCells st)"
  shows "length (mergedCells (handleResizeMove x y st)) = length (mergedCells st) \<and>
         rowStart (mergedCells (handleResizeMove x y st) ! i) = rowStart (mergedCells st ! i) \<and>
         colStart (mergedCells (handleResizeMove x y st) ! i) = colStart (mergedCells st ! i) \<and>
         (cellId (dragState st) \<noteq> Some (id' (mergedCells st ! i)) \<longrightarrow>
            mergedCells (handleResizeMove x y st) ! i = mergedCells st ! i)"
  using handleResizeMove_cases [of x y st] assms
  by (auto simp: resizeCell_start resizeCell_other)

text \<open>
  C6. A resize step does not keep the extent of a span valid for every pointer
  displacement. In \<open>negativeGapResize\<close> the gap is -80 and the mean column width 80, the
  span covers columns 0 to 2 of row 0 and its extent is valid. A vertical drag of 20
  pixels leaves the horizontal delta at \<open>Math.round(0 / 0)\<close>, which is \<open>NaN\<close>; the clamp
  \<open>Math.max(colStart + 1, Math.min(NaN, columns))\<close> is \<open>NaN\<close>, it differs from the old
  \<open>colEnd\<close>, and the span is stored with \<open>colEnd = NaN\<close>, for which neither
  \<open>colStart < colEnd\<close> nor \<open>colEnd <= columns\<close> holds.
\<close>

theorem resize_stores_NaN_extent:
  "gap (config negativeGapResize) = - 80 \<and>
   mergedCells negativeGapResize
     = [\<lparr>id' = 1, rowStart = Num 0, rowEnd = Num 1, colStart = Num 0, colEnd = Num 2,
         content = []\<rparr>] \<and>
   extentOk (config negativeGapResize) (mergedCells negativeGapResize ! 0) \<and>
   gridDelta (100 - startX (dragState negativeGapResize)) resizeSensitivity
     (columnWidths (config negativeGapResize)) (gap (config negativeGapResize)) = NaN \<and>
   mergedCells (handleResizeMove 100 120 negativeGapResize)
     = [\<lparr>id' = 1, rowStart = Num 0, rowEnd = Num 1, colStart = Num 0, colEnd = NaN,
         content = []\<rparr>] \<and>
   \<not> extentOk (config (handleResizeMove 100 120 negativeGapResize))
         (mergedCells (handleResizeMove 100 120 negativeGapResize) ! 0) \<and>
   \<not> jsLess (colStart (mergedCells (handleResizeMove 100 120 negativeGapResize) ! 0))
             (colEnd (mergedCells (handleResizeMove 100 120 negativeGapResize) ! 0))"
  by code_simp

theorem resize_stores_NaN_extent_witness:
  "isResizing (dragState negativeGapResize) \<and>
   cellId (dragState negativeGapResize) = Some 1 \<and>
   startX (dragState negativeGapResize) = 100 \<and>
   startY (dragState negativeGapResize) = 100 \<and>
   colEnd (mergedCells negativeGapResize ! 0) = Num 2 \<and>
   colEnd (mergedCells (handleResizeMove 100 120 negativeGapResize) ! 0) = NaN"
proof -
  have h: "isResizing (dragState negativeGapResize)"
    "cellId (dragState negativeGapResize) = Some 1"
    "startX (dragState negativeGapResize) = 100"
    "startY (dragState negativeGapResize) = 100"
    by code_simp+
  from resize_stores_NaN_extent h show ?thesis by simp
qed

text \<open>
  C10. A move step does not keep the column-span size of the moved span in every state.
  In \<open>negativeGapMove\<close> the gap is -80 and the span covers columns 0 to 2 of row 0. A
  vertical drag of 20 pixels leaves the horizontal delta at \<open>NaN\<close>; the new \<open>colStart\<close> is
  \<open>NaN\<close>, it differs from the old one, and the span is stored with \<open>colStart = NaN\<close> and
  \<open>colEnd = NaN\<close>: its column-span size was 2 and is \<open>NaN\<close> afterwards.
\<close>

theorem move_stores_NaN_columns:
  "gap (config negativeGapMove) = - 80 \<and>
   mergedCells negativeGapMove
     = [\<lparr>id' = 1, rowStart = Num 0, rowEnd = Num 1, colStart = Num 0, colEnd = Num 2,
         content = []\<rparr>] \<and>
   cellId (dragState negativeGapMove) = Some 1 \<and>
   gridDelta (100 - startX (dragState negativeGapMove)) moveSensitivity
     (columnWidths (config negativeGapMove)) (gap (config negativeGapMove)) = NaN \<and>
   mergedCells (handleDragMove 1000 100 120 negativeGapMove)
     = [\<lparr>id' = 1, rowStart = Num 0, rowEnd = Num 1, colStart = NaN, colEnd = NaN,
         content = []\<rparr>] \<and>
   jsSub (colEnd (mergedCells negativeGapMove ! 0)) (colStart (mergedCells negativeGapMove ! 0))
     = Num 2 \<and>
   jsSub (colEnd (mergedCells (handleDragMove 1000 100 120 negativeGapMove) ! 0))
         (colStart (mergedCells (handleDragMove 1000 100 120 negativeGapMove) ! 0))
     = NaN"
  by code_simp

theorem move_stores_NaN_columns_witness:
  "isDragging (dragState negativeGapMove) \<and>
   startX (dragState negativeGapMove) = 100 \<and>
   startY (dragState negativeGapMove) = 100 \<and>
   16 \<le> 1000 - lastDragUpdate negativeGapMove \<and>
   colStart (mergedCells negativeGapMove ! 0) = Num 0 \<and>
   colEnd (mergedCells negativeGapMove ! 0) = Num 2 \<and>
   colStart (mergedCells (handleDragMove 1000 100 120 negativeGapMove) ! 0) = NaN \<and>
   colEnd (mergedCells (handleDragMove 1000 100 120 negativeGapMove) ! 0) = NaN"
proof -
  have h: "isDragging (dragState negativeGapMove)"
    "startX (dragState negativeGapMove) = 100"
    "startY (dragState negativeGapMove) = 100"
    "16 \<le> 1000 - lastDragUpdate negativeGapMove"
    by code_simp+
  from move_stores_NaN_columns h show ?thesis by simp
qed

section \<open>Dimensions and sizing arrays\<close>

lemma Array_fill_ok:
  "0 \<le> n \<Longrightarrow> n \<le> 4294967295 \<Longrightarrow> Array_fill n v = Inr (replicate (nat n) v)"
  by (simp add: Array_fill_def)

lemma updateConfig_frame:
  "nextCellId (updateConfig u st) = nextCellId st"
  "mergedCells (updateConfig u st) = mergedCells st"
  "selectedCells (updateConfig u st) = selectedCells st"
  "dragState (updateConfig u st) = dragState st"
  by (cases u; simp)+

lemma dimension_input_stored:
  "columns (config (onColumnsChange parsed st)) = orDefault parsed 1"
  "rows (config (onRowsChange parsed st)) = orDefault parsed 1"
  by (simp_all add: onColumnsChange_def onRowsChange_def)

lemma orDefault_in_range:
  "1 \<le> v \<Longrightarrow> v \<le> 20 \<Longrightarrow> orDefault (Some v) 1 = v"
  by (simp add: orDefault_def)

text \<open>
  C3. The merged-span invariant is not preserved by a dimension change. In \<open>rightSpan\<close>
  the 3 x 3 table holds one span over columns 1 to 3 (exclusive) and the invariant holds;
  setting the column count to 2 leaves the registry as it is, so the span ends at column
  3 in a table of 2 columns.
\<close>

theorem dimension_change_breaks_span_invariant:
  "spanInvariant rightSpan \<and>
   (case step (ConfigChange (Set_columns 2)) rightSpan of
      Inl e \<Rightarrow> False
    | Inr st' \<Rightarrow>
        columns (config st') = 2 \<and>
        mergedCells st'
          = [\<lparr>id' = 1, rowStart = Num 0, rowEnd = Num 1, colStart = Num 1, colEnd = Num 3, content = []\<rparr>] \<and>
        \<not> spanInvariant st')"
  by code_simp

text \<open>
  C4. The row and column inputs store the parsed number as it is unless it is \<open>NaN\<close> or
  zero: 25 is stored as 25 and -3 as -3, outside the range from 1 to 20. With -3 rows the
  sizing effect that follows throws a \<open>RangeError\<close>.
\<close>

theorem dimension_input_not_clamped:
  "columns (config (onColumnsChange (Some 25) initialState)) = 25 \<and>
   rows (config (onRowsChange (Some (- 3)) initialState)) = - 3 \<and>
   rows (config (onRowsChange (Some 0) initialState)) = 1 \<and>
   rows (config (onRowsChange None initialState)) = 1 \<and>
   step (ConfigChange (Set_rows (orDefault (Some (- 3)) 1))) initialState = Inl RangeError"
  by code_simp

text \<open>
  C7. When an update changes the row count or the column count, and the new counts are
  array lengths (from 0 to 4294967295, which includes the range 1 to 20 of the controls),
  the render that follows succeeds and leaves \<open>columnWidths\<close> with as many elements as
  there are columns, each 80, and \<open>rowHeights\<close> with as many elements as there are rows,
  each 50, whatever the two arrays held before.
\<close>

theorem dimension_change_resets_sizes:
  assumes "rows (config (updateConfig u st)) \<noteq> rows (config st)
           \<or> columns (config (updateConfig u st)) \<noteq> columns (config st)"
    and "0 \<le> rows (config (updateConfig u st))"
    and "rows (config (updateConfig u st)) \<le> 4294967295"
    and "0 \<le> columns (config (updateConfig u st))"
    and "columns (config (updateConfig u st)) \<le> 4294967295"
  shows "\<exists>st'. changeConfig u st = Inr st' \<and>
           rows (config st') = rows (config (updateConfig u st)) \<and>
           columns (config st') = columns (config (updateConfig u st)) \<and>
           columnWidths (config st') = replicate (nat (columns (config st'))) 80 \<and>
           rowHeights (config st') = replicate (nat (rows (config st'))) 50 \<and>
           int (length (columnWidths (config st'))) = columns (config st') \<and>
           int (length (rowHeights (config st'))) = rows (config st')"
  using assms
  by (auto simp: changeConfig_def afterRender_def sizeEffect_def Array_fill_ok)

theorem dimension_change_resets_sizes_witness:
  "columnWidths (config manualSizes) = [80, 120, 80] \<and>
   rows (config (updateConfig (Set_rows 5) manualSizes)) \<noteq> rows (config manualSizes) \<and>
   0 \<le> rows (config (updateConfig (Set_rows 5) manualSizes)) \<and>
   rows (config (updateConfig (Set_rows 5) manualSizes)) \<le> 4294967295 \<and>
   0 \<le> columns (config (updateConfig (Set_rows 5) manualSizes)) \<and>
   columns (config (updateConfig (Set_rows 5) manualSizes)) \<le> 4294967295 \<and>
   (\<exists>st'. changeConfig (Set_rows 5) manualSizes = Inr st' \<and>
          columnWidths (config st') = [80, 80, 80] \<and>
          rowHeights (config st') = [50, 50, 50, 50, 50])"
proof -
  have v: "columnWidths (config manualSizes) = [80, 120, 80]" by code_simp
  have h: "rows (config (updateConfig (Set_rows 5) manualSizes)) \<noteq> rows (config manualSizes)
    \<or> columns (config (updateConfig (Set_rows 5) manualSizes)) \<noteq> columns (config manualSizes)"
    "0 \<le> rows (config (updateConfig (Set_rows 5) manualSizes))"
    "rows (config (updateConfig (Set_rows 5) manualSizes)) \<le> 4294967295"
    "0 \<le> columns (config (updateConfig (Set_rows 5) manualSizes))"
    "columns (config (updateConfig (Set_rows 5) manualSizes)) \<le> 4294967295"
    by code_simp+
  have r: "rows (config (updateConfig (Set_rows 5) manualSizes)) = 5"
    "columns (config (updateConfig (Set_rows 5) manualSizes)) = 3"
    by code_simp+
  from dimension_change_resets_sizes [OF h] obtain st'
    where st': "changeConfig (Set_rows 5) manualSizes = Inr st'"
      "rows (config st') = rows (config (updateConfig (Set_rows 5) manualSizes))"
      "columns (config st') = columns (config (updateConfig (Set_rows 5) manualSizes))"
      "columnWidths (config st') = replicate (nat (columns (config st'))) 80"
      "rowHeights (config st') = replicate (nat (rows (config st'))) 50"
    by blast
  have "columnWidths (config st') = [80, 80, 80]"
    using st'(3,4) r by (simp add: numeral_3_eq_3)
  moreover have "rowHeights (config st') = [50, 50, 50, 50, 50]"
    using st'(2,5) r by (simp add: eval_nat_numeral)
  moreover have "rows (config (updateConfig (Set_rows 5) manualSizes)) \<noteq> rows (config manualSizes)"
    by code_simp
  ultimately show ?thesis using v h(2-5) st'(1) by blast
qed

section \<open>Span ids\<close>

lemma created_id: "created ev st = Some m \<Longrightarrow> id' m = nextCellId st"
  by (cases ev)
     (auto simp: handleCellClick_def newMergedCell_def Let_def split: if_splits)

lemma created_appended:
  "created ev st = Some m \<Longrightarrow> step ev st = Inr st' \<Longrightarrow>
     mergedCells st' = mergedCells st @ [m] \<and> nextCellId st' = nextCellId st + 1"
  by (cases ev)
     (auto simp: clickCell_def handleCellClick_def mergeSelectedButton_def mergeTimeout_def
        Let_def split: if_splits)

lemma span_handlers_counter:
  "nextCellId (handleDragMove now x y st) = nextCellId st"
  "nextCellId (handleResizeMove x y st) = nextCellId st"
  by (simp_all add: handleDragMove_def handleResizeMove_def Let_def split: option.splits)

lemma axis_handlers_counter:
  "nextCellId (handleColumnResizeMove x st) = nextCellId st"
  "nextCellId (handleRowResizeMove y st) = nextCellId st"
  "nextCellId (handleIndividualCellResizeMove x y st) = nextCellId st"
  by (simp_all add: handleColumnResizeMove_def handleRowResizeMove_def
        handleIndividualCellResizeMove_def Let_def split: option.splits)

lemma mouseMove_counter: "nextCellId (mouseMove now x y st) = nextCellId st"
  by (simp add: mouseMove_def span_handlers_counter axis_handlers_counter)

lemma session_handlers_counter:
  "nextCellId (handleDragStart x y l t mid st) = nextCellId st"
  "nextCellId (handleResizeStart x y mid st) = nextCellId st"
  "nextCellId (handleColumnResizeStart x i st) = nextCellId st"
  "nextCellId (handleRowResizeStart y i st) = nextCellId st"
  "nextCellId (handleIndividualCellResizeStart x y r c st) = nextCellId st"
  "nextCellId (handleDragEnd st) = nextCellId st"
  "nextCellId (removeButton mid st) = nextCellId st"
  by (simp_all add: handleDragStart_def handleResizeStart_def handleColumnResizeStart_def
        handleRowResizeStart_def handleIndividualCellResizeStart_def handleDragEnd_def
        removeButton_def)

lemma clickCell_counter: "nextCellId st \<le> nextCellId (clickCell r c st)"
  by (simp add: clickCell_def handleCellClick_def mergeTimeout_def Let_def)

lemma mergeSelectedButton_counter: "nextCellId st \<le> nextCellId (mergeSelectedButton st)"
  by (simp add: mergeSelectedButton_def mergeTimeout_def)

lemma changeConfig_counter: "changeConfig u st = Inr st' \<Longrightarrow> nextCellId st' = nextCellId st"
  by (auto simp: changeConfig_def afterRender_def sizeEffect_def updateConfig_frame
           split: if_splits sum.splits)

lemma step_counter_mono:
  "ev \<noteq> Reset \<Longrightarrow> step ev st = Inr st' \<Longrightarrow> nextCellId st \<le> nextCellId st'"
  by (cases ev)
     (auto simp: session_handlers_counter mouseMove_counter clickCell_counter
        mergeSelectedButton_counter changeConfig_counter)

lemma assignedIds_increasing:
  "Reset \<notin> set evs \<Longrightarrow>
     sorted_wrt (<) (assignedIds evs st) \<and> (\<forall>i \<in> set (assignedIds evs st). nextCellId st \<le> i)"
proof (induction evs arbitrary: st)
  case Nil
  then show ?case by simp
next
  case (Cons ev evs)
  then have nr: "ev \<noteq> Reset" and rest: "Reset \<notin> set evs" by auto
  show ?case
  proof (cases "step ev st")
    case (Inl e)
    then show ?thesis by (auto dest: created_id split: option.splits)
  next
    case (Inr st')
    note IH = Cons.IH [OF rest, of st']
    show ?thesis
    proof (cases "created ev st")
      case None
      with Inr IH step_counter_mono [OF nr Inr] show ?thesis by fastforce
    next
      case (Some m)
      from created_id [OF Some] created_appended [OF Some Inr]
      have "id' m = nextCellId st" "nextCellId st' = nextCellId st + 1" by simp_all
      with Some Inr IH show ?thesis by fastforce
    qed
  qed
qed

text \<open>
  C8, as the claim states it, fails across a reset: the events of \<open>mergeResetMerge\<close>
  create a span, reset the table and create a span again, and both spans are assigned
  the id 1.
\<close>

theorem ids_reused_after_reset_counterexample:
  "assignedIds mergeResetMerge initialState = [1, 1] \<and>
   \<not> distinct (assignedIds mergeResetMerge initialState)"
  by code_simp

text \<open>
  C8, amended. Along every sequence of events without a reset, each merge timer firing
  before the next event, the ids assigned to created spans are strictly increasing, hence
  pairwise different, and none is below the counter of the starting state. A reset sets
  the counter back to 1.
\<close>

theorem ids_increase_without_reset:
  assumes "Reset \<notin> set evs"
  shows "sorted_wrt (<) (assignedIds evs st) \<and> distinct (assignedIds evs st) \<and>
         (\<forall>i \<in> set (assignedIds evs st). nextCellId st \<le> i) \<and>
         nextCellId (resetTable st) = 1"
proof -
  from assignedIds_increasing [OF assms, of st]
  have s: "sorted_wrt (<) (assignedIds evs st)"
    and b: "\<forall>i \<in> set (assignedIds evs st). nextCellId st \<le> i" by simp_all
  from s have "distinct (assignedIds evs st)"
    by (simp add: strict_sorted_iff)
  with s b show ?thesis by (simp add: resetTable_def)
qed

theorem ids_increase_without_reset_witness:
  "Reset \<notin> set mergeTwice \<and> assignedIds mergeTwice initialState = [1, 2] \<and>
   sorted_wrt (<) (assignedIds mergeTwice initialState) \<and>
   distinct (assignedIds mergeTwice initialState)"
proof -
  have h: "Reset \<notin> set mergeTwice" by code_simp
  have v: "assignedIds mergeTwice initialState = [1, 2]" by code_simp
  from ids_increase_without_reset [OF h, of initialState] h v show ?thesis by simp
qed

section \<open>Stylesheet\<close>

lemma fold_append_rules: "fold (\<lambda>e css. css @ f e) xs css = css @ concat (map f xs)"
  by (induction xs arbitrary: css) simp_all

lemma generateCSS_rules:
  "generateCSS st = tableRule @ ''\<newline>\<newline>'' @ cellRule (config st)
     @ concat (map widthRule (enumerate 0 (columnWidths (config st))))
     @ concat (map heightRule (enumerate 0 (rowHeights (config st))))"
  by (simp add: generateCSS_def Let_def fold_append_rules cssBase_def)

lemma cellRule_cong:
  "borderStyle a = borderStyle b \<Longrightarrow> borderColor a = borderColor b \<Longrightarrow>
   cellPadding a = cellPadding b \<Longrightarrow> cellBackgroundColor a = cellBackgroundColor b \<Longrightarrow>
   borderRadius a = borderRadius b \<Longrightarrow> cellRule a = cellRule b"
  by (simp add: cellRule_def borderText_def)

lemma map_enumerate_nth:
  "map f (enumerate 0 xs) = map (\<lambda>i. f (i, xs ! i)) [0..<length xs]"
  by (rule nth_equalityI) (simp_all add: nth_enumerate_eq)

text \<open>
  C9. The stylesheet is a function of seven configuration fields: two states that agree
  on border style, border colour, cell padding, cell background, border radius,
  \<open>columnWidths\<close> and \<open>rowHeights\<close> have the same stylesheet text, whatever their
  registries, selections and other fields are. The text is the table rule, a blank line,
  the shared cell rule, then one width rule for each index of \<open>columnWidths\<close> and one
  height rule for each index of \<open>rowHeights\<close>, in index order.
\<close>

theorem stylesheet_of_config:
  assumes "borderStyle (config a) = borderStyle (config b)"
    and "borderColor (config a) = borderColor (config b)"
    and "cellPadding (config a) = cellPadding (config b)"
    and "cellBackgroundColor (config a) = cellBackgroundColor (config b)"
    and "borderRadius (config a) = borderRadius (config b)"
    and "columnWidths (config a) = columnWidths (config b)"
    and "rowHeights (config a) = rowHeights (config b)"
  shows "generateCSS a = generateCSS b \<and>
         generateCSS a = tableRule @ ''\<newline>\<newline>'' @ cellRule (config a)
           @ concat (map (\<lambda>i. widthRule (i, columnWidths (config a) ! i))
                         [0..<length (columnWidths (config a))])
           @ concat (map (\<lambda>i. heightRule (i, rowHeights (config a) ! i))
                         [0..<length (rowHeights (config a))])"
proof -
  have c: "cellRule (config a) = cellRule (config b)"
    using assms(1-5) by (rule cellRule_cong)
  have "generateCSS a = generateCSS b"
    unfolding generateCSS_rules c assms(6,7) by (rule refl)
  moreover have "generateCSS a = tableRule @ ''\<newline>\<newline>'' @ cellRule (config a)
           @ concat (map (\<lambda>i. widthRule (i, columnWidths (config a) ! i))
                         [0..<length (columnWidths (config a))])
           @ concat (map (\<lambda>i. heightRule (i, rowHeights (config a) ! i))
                         [0..<length (rowHeights (config a))])"
    unfolding generateCSS_rules map_enumerate_nth by (rule refl)
  ultimately show ?thesis by (rule conjI)
qed

theorem stylesheet_of_config_witness:
  "borderStyle (config initialState) = borderStyle (config busyState) \<and>
   borderColor (config initialState) = borderColor (config busyState) \<and>
   cellPadding (config initialState) = cellPadding (config busyState) \<and>
   cellBackgroundColor (config initialState) = cellBackgroundColor (config busyState) \<and>
   borderRadius (config initialState) = borderRadius (config busyState) \<and>
   columnWidths (config initialState) = columnWidths (config busyState) \<and>
   rowHeights (config initialState) = rowHeights (config busyState) \<and>
   length (mergedCells initialState) = 0 \<and> length (mergedCells busyState) = 2 \<and>
   length (selectedCells initialState) = 0 \<and> length (selectedCells busyState) = 1 \<and>
   gap (config initialState) \<noteq> gap (config busyState) \<and>
   generateCSS busyState = generateCSS initialState \<and>
   generateCSS initialState =
     ''table {\<newline>  border-collapse: collapse;\<newline>  width: 100%;\<newline>}\<newline>\<newline>td {\<newline>  border: 1px solid #000000;\<newline>  padding: 8px;\<newline>  background-color: #ffffff;\<newline>  border-radius: 0px;\<newline>}\<newline>\<newline>td:nth-child(1) {\<newline>  width: 80px;\<newline>}\<newline>\<newline>td:nth-child(2) {\<newline>  width: 80px;\<newline>}\<newline>\<newline>td:nth-child(3) {\<newline>  width: 80px;\<newline>}\<newline>\<newline>tr:nth-child(1) td {\<newline>  height: 50px;\<newline>}\<newline>\<newline>tr:nth-child(2) td {\<newline>  height: 50px;\<newline>}\<newline>\<newline>tr:nth-child(3) td {\<newline>  height: 50px;\<newline>}''"
proof -
  have h: "borderStyle (config initialState) = borderStyle (config busyState)"
    "borderColor (config initialState) = borderColor (config busyState)"
    "cellPadding (config initialState) = cellPadding (config busyState)"
    "cellBackgroundColor (config initialState) = cellBackgroundColor (config busyState)"
    "borderRadius (config initialState) = borderRadius (config busyState)"
    "columnWidths (config initialState) = columnWidths (config busyState)"
    "rowHeights (config initialState) = rowHeights (config busyState)"
    by code_simp+
  have d: "length (mergedCells initialState) = 0" "length (mergedCells busyState) = 2"
    "length (selectedCells initialState) = 0" "length (selectedCells busyState) = 1"
    "gap (config initialState) \<noteq> gap (config busyState)"
    by code_simp+
  have v: "generateCSS initialState =
     ''table {\<newline>  border-collapse: collapse;\<newline>  width: 100%;\<newline>}\<newline>\<newline>td {\<newline>  border: 1px solid #000000;\<newline>  padding: 8px;\<newline>  background-color: #ffffff;\<newline>  border-radius: 0px;\<newline>}\<newline>\<newline>td:nth-child(1) {\<newline>  width: 80px;\<newline>}\<newline>\<newline>td:nth-child(2) {\<newline>  width: 80px;\<newline>}\<newline>\<newline>td:nth-child(3) {\<newline>  width: 80px;\<newline>}\<newline>\<newline>tr:nth-child(1) td {\<newline>  height: 50px;\<newline>}\<newline>\<newline>tr:nth-child(2) td {\<newline>  height: 50px;\<newline>}\<newline>\<newline>tr:nth-child(3) td {\<newline>  height: 50px;\<newline>}''"
    by code_simp
  from stylesheet_of_config [OF h] have "generateCSS busyState = generateCSS initialState"
    by simp
  with h d v show ?thesis by blast
qed

section \<open>Markup\<close>

lemma columnLoop_eq:
  "columnLoop st i j html
     = html @ concat (List.map_filter (cellMarkup st i) [j..columns (config st) - 1])"
proof (induction st i j html rule: columnLoop.induct)
  case (1 st i j html)
  show ?case
  proof (cases "j < columns (config st)")
    case True
    then have u: "[j..columns (config st) - 1] = j # [j + 1..columns (config st) - 1]"
      by (simp add: upto_rec1)
    from True 1 show ?thesis
      by (subst columnLoop.simps)
         (simp add: u appendCell_def List.map_filter_simps split: option.splits)
  next
    case False
    then show ?thesis by (subst columnLoop.simps) (simp add: List.map_filter_simps)
  qed
qed

lemma rowLoop_eq:
  "rowLoop st i html
     = html @ concat (map (\<lambda>k. rowGroup (rowCells st k)) [i..rows (config st) - 1])"
proof (induction st i html rule: rowLoop.induct)
  case (1 st i html)
  show ?case
  proof (cases "i < rows (config st)")
    case True
    then have u: "[i..rows (config st) - 1] = i # [i + 1..rows (config st) - 1]"
      by (simp add: upto_rec1)
    from True 1 show ?thesis
      by (subst rowLoop.simps) (simp add: u columnLoop_eq rowGroup_def rowCells_def)
  next
    case False
    then show ?thesis by (subst rowLoop.simps) simp
  qed
qed

lemma generateTableHTML_rows:
  "generateTableHTML st =
     ''<table style=\"border-collapse: collapse;\">\<newline>''
     @ concat (map rowGroup (tableRows st)) @ ''</table>''"
  by (simp add: generateTableHTML_def rowLoop_eq tableRows_def comp_def)

lemma inRect_overlap: "inRect a i j \<Longrightarrow> inRect b i j \<Longrightarrow> rectsOverlap a b"
  by (auto simp: inRect_def rectsOverlap_def jsGe_Num jsLess_Num)

lemma disjoint_unique_cover:
  "pairwiseDisjoint ms \<Longrightarrow> a \<in> set ms \<Longrightarrow> b \<in> set ms \<Longrightarrow>
     inRect a i j \<Longrightarrow> inRect b i j \<Longrightarrow> a = b"
proof (induction ms)
  case Nil
  then show ?case by simp
next
  case (Cons m ms)
  from Cons.prems(1) have d: "\<forall>x \<in> set ms. \<not> rectsOverlap m x" and p: "pairwiseDisjoint ms"
    by (simp_all add: list_all_iff)
  have o: "rectsOverlap a b" "rectsOverlap b a"
    using Cons.prems(4,5) by (simp_all add: inRect_overlap)
  show ?case
  proof (cases "a = m")
    case True
    with d o Cons.prems(3) show ?thesis by auto
  next
    case False
    with Cons.prems(2) have a: "a \<in> set ms" by simp
    show ?thesis
    proof (cases "b = m")
      case True
      with d o a show ?thesis by auto
    next
      case False
      with Cons.prems(3) have "b \<in> set ms" by simp
      with Cons.IH [OF p a _ Cons.prems(4,5)] show ?thesis by simp
    qed
  qed
qed

lemma subsumed_iff:
  "subsumed st i j \<longleftrightarrow>
     (\<exists>m \<in> set (mergedCells st). inRect m i j \<and> \<not> (rowStart m = Num i \<and> colStart m = Num j))"
  by (simp add: subsumed_def list_ex_iff)

lemma cellMarkup_None_iff:
  assumes "pairwiseDisjoint (mergedCells st)"
  shows "cellMarkup st i j = None \<longleftrightarrow> subsumed st i j"
proof (cases "getMergedCell st i j")
  case None
  then have "\<forall>m \<in> set (mergedCells st). \<not> inRect m i j"
    by (simp add: getMergedCell_def find_None_iff)
  then show ?thesis using None
    by (auto simp: cellMarkup_def isCellMerged_iff subsumed_iff)
next
  case (Some m)
  then have m: "m \<in> set (mergedCells st)" "inRect m i j"
    by (auto simp: getMergedCell_def find_Some_iff)
  then have merged: "isCellMerged st i j" by (auto simp: isCellMerged_iff)
  have only: "\<And>b. b \<in> set (mergedCells st) \<Longrightarrow> inRect b i j \<Longrightarrow> b = m"
    using disjoint_unique_cover [OF assms _ m(1) _ m(2)] by blast
  have "subsumed st i j \<longleftrightarrow> \<not> (rowStart m = Num i \<and> colStart m = Num j)"
    unfolding subsumed_iff using m only by blast
  with Some merged show ?thesis by (simp add: cellMarkup_def)
qed

lemma length_map_filter:
  "length (List.map_filter f xs) = length (filter (\<lambda>x. f x \<noteq> None) xs)"
  by (simp add: List.map_filter_def)

lemma length_upto_nat: "length [0..n - 1] = nat n"
  by simp

lemma filter_split_length:
  "length (filter (\<lambda>x. \<not> P x) xs) + length (filter P xs) = length xs"
  by (induction xs) simp_all

lemma rowCells_count:
  assumes "pairwiseDisjoint (mergedCells st)" "0 \<le> columns (config st)"
  shows "int (length (rowCells st i))
     = columns (config st) - int (card {j. 0 \<le> j \<and> j < columns (config st) \<and> subsumed st i j})"
proof -
  let ?n = "columns (config st)"
  have a: "length (rowCells st i) = length (filter (\<lambda>j. \<not> subsumed st i j) [0..?n - 1])"
    by (simp add: rowCells_def length_map_filter cellMarkup_None_iff [OF assms(1)])
  have b: "length (filter (\<lambda>j. subsumed st i j) [0..?n - 1])
      = card {j. 0 \<le> j \<and> j < ?n \<and> subsumed st i j}"
  proof -
    have "{j. 0 \<le> j \<and> j < ?n \<and> subsumed st i j} = set (filter (\<lambda>j. subsumed st i j) [0..?n - 1])"
      by auto
    moreover have "distinct (filter (\<lambda>j. subsumed st i j) [0..?n - 1])" by simp
    ultimately show ?thesis using distinct_card by metis
  qed
  from filter_split_length [of "\<lambda>j. subsumed st i j" "[0..?n - 1]"] assms(2)
  have "int (length (filter (\<lambda>j. \<not> subsumed st i j) [0..?n - 1]))
     = ?n - int (length (filter (\<lambda>j. subsumed st i j) [0..?n - 1]))"
    by simp
  with a b show ?thesis by simp
qed

lemma tableRows_nth:
  "0 \<le> i \<Longrightarrow> i < rows (config st) \<Longrightarrow> tableRows st ! nat i = rowCells st i"
  by (simp add: tableRows_def)


lemma subsumed_card:
  "card {j. 0 \<le> j \<and> j < n \<and> subsumed st i j} = length (filter (subsumed st i) [0..n - 1])"
proof -
  have "{j. 0 \<le> j \<and> j < n \<and> subsumed st i j} = set (filter (subsumed st i) [0..n - 1])"
    by auto
  moreover have "distinct (filter (subsumed st i) [0..n - 1])" by simp
  ultimately show ?thesis using distinct_card by metis
qed

lemma rowCells_elements:
  assumes "t \<in> set (rowCells st i)"
  shows "(\<exists>m \<in> set (mergedCells st). t = mergedTd st m) \<or> (\<exists>j. t = plainTd st i j)"
proof -
  from assms obtain j where "cellMarkup st i j = Some t"
    by (auto simp: rowCells_def List.map_filter_def)
  then show ?thesis
    by (auto simp: cellMarkup_def getMergedCell_def find_Some_iff
             split: option.splits if_splits)
qed

text \<open>
  C2. In every state whose spans are pairwise disjoint, with non-negative row and column
  counts (the data model has both between 1 and 20), the markup is the opening line of
  the table, one row group for each row index from 0 to rows - 1 in order, and the
  closing tag: exactly \<open>rows\<close> row groups. The row group of row \<open>i\<close> holds the cell
  elements of that row, each one the element of a span or a plain cell, and their number
  is \<open>columns\<close> minus the number of coordinates of row \<open>i\<close> that lie in the rectangle of
  some span without being that span's top-left anchor. The bounds of the span invariant
  are not needed for this.
\<close>

theorem markup_shape:
  assumes "pairwiseDisjoint (mergedCells st)"
    and "0 \<le> rows (config st)" and "0 \<le> columns (config st)"
  shows "generateTableHTML st =
           ''<table style=\"border-collapse: collapse;\">\<newline>''
           @ concat (map rowGroup (tableRows st)) @ ''</table>'' \<and>
         int (length (tableRows st)) = rows (config st) \<and>
         (\<forall>i. 0 \<le> i \<and> i < rows (config st) \<longrightarrow>
            tableRows st ! nat i = rowCells st i \<and>
            int (length (rowCells st i))
              = columns (config st)
                - int (card {j. 0 \<le> j \<and> j < columns (config st) \<and> subsumed st i j}) \<and>
            (\<forall>t \<in> set (rowCells st i).
               (\<exists>m \<in> set (mergedCells st). t = mergedTd st m) \<or> (\<exists>j. t = plainTd st i j)))"
proof -
  have "int (length (tableRows st)) = rows (config st)"
    using assms(2) by (simp add: tableRows_def)
  with assms(1,3) show ?thesis
    by (simp add: generateTableHTML_rows rowCells_count tableRows_nth rowCells_elements)
qed

theorem markup_shape_witness:
  \<open>pairwiseDisjoint (mergedCells twoSpans) \<and>
   0 \<le> rows (config twoSpans) \<and> 0 \<le> columns (config twoSpans) \<and>
   map length (tableRows twoSpans) = [2, 3, 2] \<and>
   filter (subsumed twoSpans 0) [0..columns (config twoSpans) - 1] = [1] \<and>
   card {j. 0 \<le> j \<and> j < columns (config twoSpans) \<and> subsumed twoSpans 0 j} = 1 \<and>
   int (length (rowCells twoSpans 0))
     = columns (config twoSpans)
       - int (card {j. 0 \<le> j \<and> j < columns (config twoSpans) \<and> subsumed twoSpans 0 j}) \<and>
   rowCells twoSpans 0 =
     [''    <td style="border: 1px solid #000000; padding: 8px; background-color: #ffffff; border-radius: 0px;" rowspan="1" colspan="2"></td>\<newline>'',
      ''    <td style="border: 1px solid #000000; padding: 8px; background-color: #ffffff; border-radius: 0px;"></td>\<newline>'']\<close>
proof -
  have l: \<open>rowCells twoSpans 0 =
     [''    <td style="border: 1px solid #000000; padding: 8px; background-color: #ffffff; border-radius: 0px;" rowspan="1" colspan="2"></td>\<newline>'',
      ''    <td style="border: 1px solid #000000; padding: 8px; background-color: #ffffff; border-radius: 0px;"></td>\<newline>'']\<close>
    by code_simp
  have h: "pairwiseDisjoint (mergedCells twoSpans)"
    "0 \<le> rows (config twoSpans)" "0 \<le> columns (config twoSpans)"
    by code_simp+
  have v: "map length (tableRows twoSpans) = [2, 3, 2]"
    "filter (subsumed twoSpans 0) [0..columns (config twoSpans) - 1] = [1]"
    "0 < rows (config twoSpans)"
    by code_simp+
  from v(2) have c: "card {j. 0 \<le> j \<and> j < columns (config twoSpans) \<and> subsumed twoSpans 0 j} = 1"
    by (simp add: subsumed_card)
  from markup_shape [OF h] v(3)
  have "int (length (rowCells twoSpans 0))
     = columns (config twoSpans)
       - int (card {j. 0 \<le> j \<and> j < columns (config twoSpans) \<and> subsumed twoSpans 0 j})"
    by simp
  with h v c l show ?thesis by blast
qed

section \<open>Span invariant under the other events\<close>

lemma gridInvariant_cong:
  "rows (config st') = rows (config st) \<Longrightarrow> columns (config st') = columns (config st) \<Longrightarrow>
   mergedCells st' = mergedCells st \<Longrightarrow> selectedCells st' = selectedCells st \<Longrightarrow>
   gridInvariant st' = gridInvariant st"
  by (simp add: gridInvariant_def spanInvariant_def list_all_iff spanInBounds_def cellInGrid_def)

lemma newMergedCell_inBounds:
  assumes "newSelection p \<noteq> []" "list_all (cellInGrid cfg) (newSelection p)"
  shows "spanInBounds cfg (newMergedCell p)"
proof -
  let ?R = "row ` set (newSelection p)" and ?C = "col ` set (newSelection p)"
  have f: "finite ?R" "?R \<noteq> {}" "finite ?C" "?C \<noteq> {}" using assms(1) by simp_all
  have r: "\<forall>x \<in> ?R. 0 \<le> x \<and> x < rows cfg" and c: "\<forall>x \<in> ?C. 0 \<le> x \<and> x < columns cfg"
    using assms(2) by (auto simp: list_all_iff cellInGrid_def)
  note m = Min_in [OF f(1,2)] Max_in [OF f(1,2)] Min_in [OF f(3,4)] Max_in [OF f(3,4)]
  have le: "Min ?R \<le> Max ?R" "Min ?C \<le> Max ?C"
    using f by (simp_all only: Min.bounded_iff Max_ge m)
  from m r have "0 \<le> Min ?R" "Max ?R < rows cfg" by blast+
  moreover from m c have "0 \<le> Min ?C" "Max ?C < columns cfg" by blast+
  ultimately show ?thesis
    using le by (simp add: spanInBounds_Num newMergedCell_box [OF assms(1)])
qed

lemma mergeTimeout_invariant:
  assumes "spanInvariant st" "newSelection p \<noteq> []" "list_all (cellInGrid (config st)) (newSelection p)"
  shows "gridInvariant (mergeTimeout p st)"
  using assms newMergedCell_inBounds [OF assms(2,3)]
  by (simp add: gridInvariant_def spanInvariant_def mergeTimeout_def)

lemma clickCell_invariant:
  assumes "gridInvariant st" "cellInGrid (config st) \<lparr>row = r, col = c\<rparr>"
  shows "gridInvariant (clickCell r c st)"
proof -
  let ?sel = "selectedCells st @ [\<lparr>row = r, col = c\<rparr>]"
  let ?p = "\<lparr>newSelection = ?sel, capturedId = nextCellId st,
             capturedFill = fillSampleText (config st)\<rparr>"
  have m: "gridInvariant (mergeTimeout ?p (st\<lparr>selectedCells := ?sel\<rparr>))"
    using assms by (intro mergeTimeout_invariant) (simp_all add: gridInvariant_def spanInvariant_def)
  have a: "gridInvariant (st\<lparr>selectedCells := ?sel\<rparr>)"
    using assms by (simp add: gridInvariant_def spanInvariant_def)
  have b: "gridInvariant (st\<lparr>selectedCells :=
                  filter (\<lambda>cell. \<not> (row cell = r \<and> col cell = c)) (selectedCells st)\<rparr>)"
    using assms(1) by (simp add: gridInvariant_def spanInvariant_def list_all_iff)
  have d: "gridInvariant (st\<lparr>mergedCells := filter (\<lambda>cell. \<not> inRect cell r c) (mergedCells st),
               selectedCells := []\<rparr>)"
    using assms(1) by (simp add: gridInvariant_def spanInvariant_def list_all_iff)
  from m a b d assms(1) show ?thesis
    by (simp add: clickCell_def handleCellClick_def Let_def)
qed

lemma mergeSelectedButton_invariant:
  assumes "gridInvariant st"
  shows "gridInvariant (mergeSelectedButton st)"
proof (cases "2 \<le> length (selectedCells st)")
  case True
  then have ne: "selectedCells st \<noteq> []" by auto
  let ?p = "\<lparr>newSelection = selectedCells st, capturedId = nextCellId st,
             capturedFill = fillSampleText (config st)\<rparr>"
  have "gridInvariant (mergeTimeout ?p st)"
    using assms ne by (intro mergeTimeout_invariant) (simp_all add: gridInvariant_def)
  with True show ?thesis by (simp add: mergeSelectedButton_def)
next
  case False
  with assms show ?thesis by (simp add: mergeSelectedButton_def)
qed

lemma removeButton_invariant: "gridInvariant st \<Longrightarrow> gridInvariant (removeButton mid st)"
  by (simp add: removeButton_def gridInvariant_def spanInvariant_def list_all_iff)

lemma session_handlers_invariant:
  "gridInvariant (handleDragStart x y l t mid st) = gridInvariant st"
  "gridInvariant (handleResizeStart x y mid st) = gridInvariant st"
  "gridInvariant (handleColumnResizeStart x i st) = gridInvariant st"
  "gridInvariant (handleRowResizeStart y i st) = gridInvariant st"
  "gridInvariant (handleIndividualCellResizeStart x y r c st) = gridInvariant st"
  "gridInvariant (handleDragEnd st) = gridInvariant st"
  by (rule gridInvariant_cong;
      simp add: handleDragStart_def handleResizeStart_def handleColumnResizeStart_def
        handleRowResizeStart_def handleIndividualCellResizeStart_def handleDragEnd_def)+

lemma axis_handlers_invariant:
  "gridInvariant (handleColumnResizeMove x st) = gridInvariant st"
  "gridInvariant (handleRowResizeMove y st) = gridInvariant st"
  "gridInvariant (handleIndividualCellResizeMove x y st) = gridInvariant st"
  by (rule gridInvariant_cong;
      simp add: handleColumnResizeMove_def handleRowResizeMove_def
        handleIndividualCellResizeMove_def Let_def split: option.splits)+

lemma handleResizeMove_invariant:
  assumes "gridInvariant st"
    and "gridDelta (x - startX (dragState st)) resizeSensitivity
           (columnWidths (config st)) (gap (config st)) \<noteq> NaN"
    and "gridDelta (y - startY (dragState st)) resizeSensitivity
           (rowHeights (config st)) (gap (config st)) \<noteq> NaN"
  shows "gridInvariant (handleResizeMove x y st)"
proof -
  have "\<And>mid cd rd. cd \<noteq> NaN \<Longrightarrow> rd \<noteq> NaN \<Longrightarrow>
          gridInvariant (st\<lparr>mergedCells := map (resizeCell (config st) mid cd rd) (mergedCells st)\<rparr>)"
    using assms(1)
    by (simp add: gridInvariant_def spanInvariant_def list_all_iff resizeCell_inBounds)
  with assms handleResizeMove_cases [of x y st] show ?thesis by auto
qed

lemma handleDragMove_invariant:
  assumes "gridInvariant st"
    and "gridDelta (x - startX (dragState st)) moveSensitivity
           (columnWidths (config st)) (gap (config st)) \<noteq> NaN"
    and "gridDelta (y - startY (dragState st)) moveSensitivity
           (rowHeights (config st)) (gap (config st)) \<noteq> NaN"
  shows "gridInvariant (handleDragMove now x y st)"
proof -
  have a: "\<And>mid cd rd. cd \<noteq> NaN \<Longrightarrow> rd \<noteq> NaN \<Longrightarrow>
             gridInvariant (st\<lparr>lastDragUpdate := now,
               mergedCells := map (moveCell (config st) mid cd rd) (mergedCells st)\<rparr>)"
    using assms(1)
    by (simp add: gridInvariant_def spanInvariant_def list_all_iff moveCell_inBounds)
  have b: "gridInvariant (st\<lparr>lastDragUpdate := now\<rparr>)"
    using assms(1) by (simp add: gridInvariant_def spanInvariant_def)
  from a b assms show ?thesis
    by (simp add: handleDragMove_def Let_def split: option.splits)
qed

lemma mouseMove_invariant:
  "gridInvariant st \<Longrightarrow> deltasDefined (MouseMove now x y) st \<Longrightarrow>
     gridInvariant (mouseMove now x y st)"
  by (simp add: mouseMove_def axis_handlers_invariant handleResizeMove_invariant
        handleDragMove_invariant)

lemma style_change_invariant:
  assumes "gridInvariant st" "\<not> isDimensionChange (ConfigChange u)" "changeConfig u st = Inr st'"
  shows "gridInvariant st'"
proof -
  from assms(2) have same: "rows (config (updateConfig u st)) = rows (config st)"
    "columns (config (updateConfig u st)) = columns (config st)"
    by (cases u; simp)+
  with assms(3) have "st' = updateConfig u st"
    by (simp add: changeConfig_def afterRender_def)
  with same assms(1) show ?thesis
    using gridInvariant_cong [of "updateConfig u st" st] by (simp add: updateConfig_frame)
qed

lemma reset_invariant: "afterRender st (resetTable st) = Inr st' \<Longrightarrow> gridInvariant st'"
  by (auto simp: afterRender_def sizeEffect_def resetTable_def gridInvariant_def spanInvariant_def
           split: if_splits sum.splits)

text \<open>
  Every event other than a change of the row or column count keeps the span invariant,
  together with the fact that the selected coordinates lie inside the table, provided
  clicks hit coordinates inside the table and the grid deltas of a pointer move are not
  \<open>NaN\<close>.
\<close>

lemma other_events_keep_invariant:
  assumes "gridInvariant st" "clickInGrid ev st" "deltasDefined ev st"
    "\<not> isDimensionChange ev" "step ev st = Inr st'"
  shows "gridInvariant st'"
  using assms
  by (cases ev)
     (auto simp: clickCell_invariant mergeSelectedButton_invariant removeButton_invariant
        session_handlers_invariant mouseMove_invariant reset_invariant
        dest: style_change_invariant)

section \<open>Overlapping timers\<close>

text \<open>
  When a further cell is clicked before the timer of the previous click has fired, both
  timers hold the same captured \<open>nextCellId\<close>, and the two spans they create share it.
\<close>

lemma stale_timer_shares_id:
  "map id' (mergedCells twoTimers) = [1, 1] \<and> nextCellId twoTimers = 3"
  by code_simp

end
